theory Spec2Isabelle
  imports Main
begin

section \<open>Key recovery service: master key allocation and wallet key issuing\<close>

text \<open>
  A shallow embedding of \<^verbatim>\<open>src/app/krs.js\<close>. The two Mongo collections and the
  calls made to outside collaborators are an explicit state that every operation takes
  and returns; a rejected promise or a \<^verbatim>\<open>throw\<close> is the \<open>Inl\<close> of a sum, returned
  together with the state reached so far (writes made before a throw stay made).
  One request runs at a time, and the calls to the two collections themselves answer;
  the mail queue, Mailchimp, the digest and the webhook may fail.
\<close>

subsection \<open>JavaScript values\<close>

text \<open>
  A request or document field that holds a string is a \<open>string option\<close>; \<open>None\<close> is
  \<^verbatim>\<open>undefined\<close>. \<open>truthy\<close> is the test of \<^verbatim>\<open>if (x)\<close> and \<^verbatim>\<open>!x\<close>: undefined and the
  empty string are falsy.
\<close>

definition truthy :: "string option \<Rightarrow> bool" where
  "truthy v = (case v of None \<Rightarrow> False | Some s \<Rightarrow> s \<noteq> [])"

text \<open>
  \<open>toStr\<close> is the conversion to string that a template literal and a property key
  apply: \<^verbatim>\<open>`${undefined}`\<close> and the key of \<^verbatim>\<open>obj[undefined]\<close> are both the text
  \<^verbatim>\<open>undefined\<close>.
\<close>

definition toStr :: "string option \<Rightarrow> string" where
  "toStr v = (case v of None \<Rightarrow> ''undefined'' | Some s \<Rightarrow> s)"

text \<open>
  \<open>getProp tbl k\<close> is the property read \<^verbatim>\<open>tbl[k]\<close> on a configuration table. A table
  is a plain object: it is given by its own keys, each holding a string, and a read of
  any other key falls back to \<^verbatim>\<open>Object.prototype\<close>, whose members are functions, or for
  \<^verbatim>\<open>__proto__\<close> the prototype object itself. So a read yields a string, an inherited
  member or undefined.
\<close>

datatype jsval = Undefined | Str string | Inherited string

definition objectPrototypeKeys :: "string list" where
  "objectPrototypeKeys = [''constructor'', ''__defineGetter__'', ''__defineSetter__'',
     ''hasOwnProperty'', ''__lookupGetter__'', ''__lookupSetter__'', ''isPrototypeOf'',
     ''propertyIsEnumerable'', ''toString'', ''valueOf'', ''__proto__'', ''toLocaleString'']"

definition getProp :: "(string \<rightharpoonup> string) \<Rightarrow> string option \<Rightarrow> jsval" where
  "getProp tbl k =
     (case tbl (toStr k) of
        Some v \<Rightarrow> Str v
      | None \<Rightarrow> if toStr k \<in> set objectPrototypeKeys then Inherited (toStr k) else Undefined)"

text \<open>The value of a request field, for a comparison with what a table holds.\<close>

definition jsOf :: "string option \<Rightarrow> jsval" where
  "jsOf v = (case v of None \<Rightarrow> Undefined | Some s \<Rightarrow> Str s)"

text \<open>Truthiness of what a table read yields: functions and objects are truthy.\<close>

definition truthyVal :: "jsval \<Rightarrow> bool" where
  "truthyVal v = (case v of Undefined \<Rightarrow> False | Str s \<Rightarrow> s \<noteq> [] | Inherited n \<Rightarrow> True)"

text \<open>
  \<open>textOf\<close> is the text a template literal gives: for a native function its source
  text, for the prototype object \<^verbatim>\<open>[object Object]\<close>.
\<close>

definition textOf :: "jsval \<Rightarrow> string" where
  "textOf v =
     (case v of
        Undefined \<Rightarrow> ''undefined''
      | Str s \<Rightarrow> s
      | Inherited n \<Rightarrow>
          if n = ''__proto__'' then ''[object Object]''
          else ''function '' @ (if n = ''constructor'' then ''Object'' else n)
                 @ ''() { [native code] }'')"

definition digitChar :: "nat \<Rightarrow> char" where
  "digitChar d = ''0123456789'' ! d"

text \<open>\<open>numberToString n\<close> is \<^verbatim>\<open>'' + n\<close> for a non-negative integer \<open>n\<close>.\<close>

function numberToString :: "nat \<Rightarrow> string" where
  "numberToString n =
     (if n < 10 then [digitChar n] else numberToString (n div 10) @ [digitChar (n mod 10)])"
  by pat_completeness auto
termination
  by (relation "measure (\<lambda>n. n)") auto

declare numberToString.simps [simp del]

subsection \<open>Documents, configuration, request and response\<close>

text \<open>
  A master key document. An unassigned key has neither \<open>coin\<close> nor \<open>customerId\<close>.
  Documents are never deleted or reordered by this file, so a document's place in the
  collection stands for its \<^verbatim>\<open>_id\<close>.
\<close>

record MasterKey =
  mk_coin :: "string option"
  mk_customerId :: "string option"
  mk_type :: string
  mk_pub :: string
  mk_keyCount :: nat
  mk_signature :: "string option"

text \<open>The value of the optional \<^verbatim>\<open>custom\<close> object: its properties by name.\<close>

datatype customValue = CString string | CDate nat

type_synonym customObject = "string \<rightharpoonup> customValue"

text \<open>
  A wallet key document, with the properties this file reads or writes on it. Every
  property of \<^verbatim>\<open>new WalletKey()\<close> is undefined until assigned.
\<close>

record WalletKey =
  wk_pub :: "string option"
  wk_xpub :: "string option"
  wk_masterKey :: "string option"
  wk_path :: "nat option"
  wk_userEmail :: "string option"
  wk_notificationURL :: "string option"
  wk_custom :: "customObject option"
  wk_masterKeySig :: "string option"

text \<open>
  Modelled from the spec: the schema of \<^verbatim>\<open>./models/walletkey\<close> is not in the file.
  The spec's WalletKey has one public key attribute (written here as \<^verbatim>\<open>key.pub\<close>), so a
  new document has no value under \<^verbatim>\<open>xpub\<close> or any other property.
\<close>

definition newWalletKey :: WalletKey where
  "newWalletKey = \<lparr> wk_pub = None, wk_xpub = None, wk_masterKey = None, wk_path = None,
     wk_userEmail = None, wk_notificationURL = None, wk_custom = None,
     wk_masterKeySig = None \<rparr>"

record requesterAuthConfig =
  required :: bool
  clients :: "string \<rightharpoonup> string"

record config =
  supportedcoins :: "string \<rightharpoonup> string"
  neverReuseMasterKey :: bool
  lowKeyWarningLevels :: "nat list"
  disableAllKRSEmail :: bool
  sendMailChimpNotKRSEMail :: bool
  requesterAuth :: "requesterAuthConfig option"
  provider_id :: string
  provider_secret :: string
  adminemail :: string
  servicename :: string
  serviceurl :: string
  moreWalletsTags :: string
  firstWalletTags :: string

record body =
  b_customerId :: "string option"
  b_coin :: "string option"
  b_userEmail :: "string option"
  b_notificationURL :: "string option"
  b_custom :: "customObject option"
  b_disableKRSEmail :: bool
  b_requesterId :: "string option"
  b_requesterSecret :: "string option"

record response =
  r_masterKey :: string
  r_path :: "nat option"
  r_userEmail :: "string option"
  r_custom :: "customObject option"
  r_masterKeySig :: "string option"
  r_pub :: "string option"

datatype error = ErrorResponse nat string | Rejected string

definition errorText :: "error \<Rightarrow> string" where
  "errorText e = (case e of ErrorResponse c m \<Rightarrow> m | Rejected m \<Rightarrow> m)"

subsection \<open>Collaborators and effects\<close>

record mcRes =
  mc_status :: nat
  mc_Msg :: string

record payload =
  p_userEmail :: "string option"
  p_provider :: string
  p_state :: string
  p_xpub :: "string option"
  p_hmac :: string

datatype mailParams =
    LowParams nat jsval
  | KeyParams "string option" string string string "string option"

text \<open>
  Everything the file asks of the outside, in the order asked: writes to the two
  collections, mails handed to \<^verbatim>\<open>utils.sendMailQ\<close> (recipient, subject, template,
  parameters), Mailchimp calls, the webhook POST and console lines.
\<close>

datatype event =
    MasterKeyAssigned nat "string option" "string option"
  | WalletKeySaved WalletKey
  | KeyCountIncremented nat
  | MailQueued "string option" string string mailParams
  | MailchimpCreateMember "string option"
  | MailchimpAddTag "string option" string
  | HttpPost "string option" payload
  | ConsoleLog string

text \<open>
  What the collaborators answer during one request. \<open>deriveChildKey\<close> is
  \<^verbatim>\<open>utils.deriveChildKey\<close>; \<open>hmacSha256Hex secret data\<close> is the hex digest of
  \<^verbatim>\<open>crypto.createHmac('sha256', secret)\<close> updated with \<open>data\<close>, which may be undefined
  and may throw; the flags say which outside calls reject.
\<close>

record env =
  deriveChildKey :: "string \<Rightarrow> string \<Rightarrow> string \<Rightarrow> string"
  hmacSha256Hex :: "string \<Rightarrow> string option \<Rightarrow> error + string"
  now :: nat
  adminMailFails :: bool
  userMailFails :: bool
  createMemberResult :: "error + mcRes"
  addTagResult :: "error + mcRes"
  postFails :: bool

record krs =
  masterKeys :: "MasterKey list"
  walletKeys :: "WalletKey list"
  effects :: "event list"

definition emit :: "event \<Rightarrow> krs \<Rightarrow> krs" where
  "emit e s = s\<lparr>effects := effects s @ [e]\<rparr>"

fun findIndex :: "('a \<Rightarrow> bool) \<Rightarrow> 'a list \<Rightarrow> nat option" where
  "findIndex P [] = None"
| "findIndex P (x # xs) = (if P x then Some 0 else map_option Suc (findIndex P xs))"

subsection \<open>notifyEndpoint (lines 21-45)\<close>

definition notifyEndpoint ::
  "config \<Rightarrow> env \<Rightarrow> WalletKey \<Rightarrow> string \<Rightarrow> krs \<Rightarrow> (error + unit) \<times> krs" where
  "notifyEndpoint cfg io key state s =
     (let notificationURL = wk_notificationURL key;
          userEmail = wk_userEmail key;
          xpub = wk_xpub key
      in case hmacSha256Hex io (provider_secret cfg) xpub of
           Inl e \<Rightarrow> (Inl e, s)
         | Inr hmac \<Rightarrow>
             (let s1 = emit (HttpPost notificationURL
                         \<lparr> p_userEmail = userEmail, p_provider = provider_id cfg,
                           p_state = state, p_xpub = xpub, p_hmac = hmac \<rparr>) s
              in if postFails io
                 then (Inr (), emit (ConsoleLog ''error connecting to webhook'') s1)
                 else (Inr (), s1)))"

subsection \<open>sendDatabaseLowWarning (lines 47-53)\<close>

definition sendDatabaseLowWarning ::
  "config \<Rightarrow> env \<Rightarrow> nat \<Rightarrow> jsval \<Rightarrow> krs \<Rightarrow> (error + unit) \<times> krs" where
  "sendDatabaseLowWarning cfg io availableKeys type s =
     (let s1 = emit (MailQueued (Some (adminemail cfg))
                       ''URGENT: Please replenish the master key database''
                       ''databaselow'' (LowParams availableKeys type)) s
      in if adminMailFails io then (Inl (Rejected ''sendMailQ''), s1) else (Inr (), s1))"

subsection \<open>provisionMasterKey (lines 61-77)\<close>

text \<open>
  The filter \<^verbatim>\<open>{ coin: null, customerId: null, type: keyType }\<close>. A stored type is a
  string, so no document matches where \<open>keyType\<close> is undefined or an inherited member.
\<close>

definition unassigned :: "jsval \<Rightarrow> MasterKey \<Rightarrow> bool" where
  "unassigned keyType k =
     (mk_coin k = None \<and> mk_customerId k = None \<and> Str (mk_type k) = keyType)"

text \<open>
  \<^verbatim>\<open>findOneAndUpdate\<close> takes the first document that matches, writes \<open>coin\<close>,
  \<open>customerId\<close> and \<open>type\<close> on it in the collection and, no option being passed,
  resolves to the document as it was before the update (or to null).
\<close>

definition provisionMasterKey ::
  "config \<Rightarrow> env \<Rightarrow> string option \<Rightarrow> string option \<Rightarrow> krs
     \<Rightarrow> (error + nat \<times> MasterKey) \<times> krs" where
  "provisionMasterKey cfg io coin customerId s =
     (let keyType = getProp (supportedcoins cfg) coin
      in case findIndex (unassigned keyType) (masterKeys s) of
           None \<Rightarrow> (Inl (ErrorResponse 500 (''no available '' @ textOf keyType @ '' keys'')), s)
         | Some i \<Rightarrow>
             (let key = masterKeys s ! i;
                  s1 = emit (MasterKeyAssigned i coin customerId)
                         (s\<lparr>masterKeys := (masterKeys s)
                              [i := key\<lparr>mk_coin := coin, mk_customerId := customerId,
                                        mk_type := textOf keyType\<rparr>]\<rparr>);
                  availableKeys = length (filter (unassigned keyType) (masterKeys s1))
              in if availableKeys \<in> set (lowKeyWarningLevels cfg) \<and> \<not> disableAllKRSEmail cfg
                 then (case sendDatabaseLowWarning cfg io availableKeys keyType s1 of
                         (Inl e, s2) \<Rightarrow> (Inl e, s2)
                       | (Inr u, s2) \<Rightarrow> (Inr (i, key), s2))
                 else (Inr (i, key), s1)))"

subsection \<open>getMasterXpub (lines 85-98)\<close>

definition getMasterXpub ::
  "config \<Rightarrow> env \<Rightarrow> string option \<Rightarrow> string option \<Rightarrow> krs
     \<Rightarrow> (error + nat \<times> MasterKey) \<times> krs" where
  "getMasterXpub cfg io coin customerId s =
     (if neverReuseMasterKey cfg then provisionMasterKey cfg io coin customerId s
      else case findIndex (\<lambda>k. mk_coin k = coin \<and> mk_customerId k = customerId)
                  (masterKeys s) of
             Some i \<Rightarrow> (Inr (i, masterKeys s ! i), s)
           | None \<Rightarrow> provisionMasterKey cfg io coin customerId s)"

subsection \<open>isExistingUser (lines 322-327)\<close>

definition isExistingUser :: "string option \<Rightarrow> krs \<Rightarrow> bool" where
  "isExistingUser email s = (findIndex (\<lambda>k. wk_userEmail k = email) (walletKeys s) \<noteq> None)"

subsection \<open>provisionKey (lines 106-231)\<close>

text \<open>The requester check of lines 131-139: the error it throws, if any.\<close>

definition requesterCheck :: "config \<Rightarrow> body \<Rightarrow> error option" where
  "requesterCheck cfg req =
     (case requesterAuth cfg of
        None \<Rightarrow> None
      | Some ra \<Rightarrow>
          if required ra then
            (if \<not> truthy (b_requesterId req) \<and> \<not> truthy (b_requesterSecret req)
             then Some (ErrorResponse 401
               ''this krs requires you to send a requesterId and requesterSecret to get a key'')
             else if \<not> truthyVal (getProp (clients ra) (b_requesterId req))
             then Some (ErrorResponse 401 ''invalid requesterSecret'')
             else if getProp (clients ra) (b_requesterId req) \<noteq> jsOf (b_requesterSecret req)
             then Some (ErrorResponse 401 ''invalid requesterSecret'')
             else None)
          else None)"

text \<open>
  Lines 141-151: the master key, and the wallet key's \<open>pub\<close>. A Stellar wallet always
  takes a new master key and uses its public key; any other coin goes through
  \<open>getMasterXpub\<close> and derives a child key at the master key's \<open>keyCount\<close>.
\<close>

definition obtainMasterKey ::
  "config \<Rightarrow> env \<Rightarrow> body \<Rightarrow> WalletKey \<Rightarrow> krs
     \<Rightarrow> (error + (nat \<times> MasterKey) \<times> WalletKey) \<times> krs" where
  "obtainMasterKey cfg io req key s =
     (if getProp (supportedcoins cfg) (b_coin req) = Str ''xlm''
      then (case provisionMasterKey cfg io (b_coin req) (b_customerId req) s of
              (Inl e, s1) \<Rightarrow> (Inl e, s1)
            | (Inr (i, masterKey), s1) \<Rightarrow>
                (Inr ((i, masterKey), key\<lparr>wk_pub := Some (mk_pub masterKey)\<rparr>), s1))
      else (case getMasterXpub cfg io (b_coin req) (b_customerId req) s of
              (Inl e, s1) \<Rightarrow> (Inl e, s1)
            | (Inr (i, masterKey), s1) \<Rightarrow>
                (Inr ((i, masterKey),
                      key\<lparr>wk_pub := Some (deriveChildKey io (mk_pub masterKey)
                                    (numberToString (mk_keyCount masterKey)) ''xpub'')\<rparr>), s1)))"

text \<open>
  Lines 153-169: the remaining fields of the wallet key, \<^verbatim>\<open>key.save()\<close>, the signature
  and then \<^verbatim>\<open>masterKey.update({ $inc: { keyCount: 1 } })\<close> on the stored master key.
\<close>

definition saveWalletKey ::
  "env \<Rightarrow> body \<Rightarrow> nat \<Rightarrow> MasterKey \<Rightarrow> WalletKey \<Rightarrow> krs \<Rightarrow> WalletKey \<times> krs" where
  "saveWalletKey io req i masterKey key s =
     (let key1 = key\<lparr>wk_masterKey := Some (mk_pub masterKey),
                     wk_path := Some (mk_keyCount masterKey),
                     wk_userEmail := b_userEmail req,
                     wk_notificationURL := b_notificationURL req,
                     wk_custom := Some ((case b_custom req of None \<Rightarrow> Map.empty | Some c \<Rightarrow> c)
                                          (''created'' \<mapsto> CDate (now io)))\<rparr>;
          s1 = emit (WalletKeySaved key1) (s\<lparr>walletKeys := walletKeys s @ [key1]\<rparr>);
          key2 = (if truthy (mk_signature masterKey)
                  then key1\<lparr>wk_masterKeySig := mk_signature masterKey\<rparr> else key1);
          stored = masterKeys s1 ! i;
          s2 = emit (KeyCountIncremented i)
                 (s1\<lparr>masterKeys := (masterKeys s1)
                        [i := stored\<lparr>mk_keyCount := mk_keyCount stored + 1\<rparr>]\<rparr>)
      in (key2, s2))"

text \<open>Lines 171-189: the mail to the owner; a failure to send it is a 503.\<close>

definition sendKeyEmail ::
  "config \<Rightarrow> env \<Rightarrow> body \<Rightarrow> bool \<Rightarrow> WalletKey \<Rightarrow> krs \<Rightarrow> (error + unit) \<times> krs" where
  "sendKeyEmail cfg io req existingUser key s =
     (if \<not> b_disableKRSEmail req \<and> \<not> disableAllKRSEmail cfg \<and> \<not> sendMailChimpNotKRSEMail cfg
      then (let s1 = emit (MailQueued (wk_userEmail key) ''BitGo Wallet: ACTION REQUIRED''
                       (if existingUser then ''existingUserNewKeyTemplate'' else ''newkeytemplate'')
                       (KeyParams (wk_pub key) (servicename cfg) (serviceurl cfg)
                          (adminemail cfg) (wk_userEmail key))) s
            in if userMailFails io
               then (Inl (ErrorResponse 503 ''Problem sending email''), s1)
               else (Inr (), s1))
      else (Inr (), s))"

text \<open>
  Lines 191-215: the Mailchimp calls. A status other than 200 is written to the console;
  anything thrown inside the \<^verbatim>\<open>try\<close> is written to the console and thrown again as a 503.
\<close>

definition mailchimpFailed :: "error \<Rightarrow> krs \<Rightarrow> (error + unit) \<times> krs" where
  "mailchimpFailed e s =
     (Inl (ErrorResponse 503 ''Problem calling mailchimp''),
      emit (ConsoleLog (''Failed to create Mailchimp lists and tags. '' @ errorText e)) s)"

definition syncMailchimp ::
  "config \<Rightarrow> env \<Rightarrow> bool \<Rightarrow> string option \<Rightarrow> krs \<Rightarrow> (error + unit) \<times> krs" where
  "syncMailchimp cfg io existingUser userEmail s =
     (if sendMailChimpNotKRSEMail cfg
      then (let s1 = emit (MailchimpCreateMember userEmail) s
            in case createMemberResult io of
                 Inl e \<Rightarrow> mailchimpFailed e s1
               | Inr mcRes \<Rightarrow>
                   (let s2 = (if mc_status mcRes \<noteq> 200
                              then emit (ConsoleLog (''Mailchimp User Not Created. '' @ mc_Msg mcRes)) s1
                              else s1);
                        tags = (if existingUser then moreWalletsTags cfg else firstWalletTags cfg);
                        s3 = emit (MailchimpAddTag userEmail tags) s2
                    in case addTagResult io of
                         Inl e \<Rightarrow> mailchimpFailed e s3
                       | Inr mcRes2 \<Rightarrow>
                           (let s4 = emit (ConsoleLog (''Adding['' @ tags @ ''] to existing user.'')) s3;
                                s5 = (if mc_status mcRes2 \<noteq> 200
                                      then emit (ConsoleLog (''Mailchimp API Error['' @ mc_Msg mcRes2
                                             @ ''] - Tags not added['' @ mc_Msg mcRes2 @ '']'')) s4
                                      else s4)
                            in (Inr (), s5))))
      else (Inr (), s))"

definition provisionKey ::
  "config \<Rightarrow> env \<Rightarrow> body \<Rightarrow> krs \<Rightarrow> (error + response) \<times> krs" where
  "provisionKey cfg io req s =
     (let key = newWalletKey;
          customerId = b_customerId req;
          coin = b_coin req;
          userEmail = b_userEmail req
      in if \<not> truthy customerId
         then (Inl (ErrorResponse 400 ''user or enterprise ID required''), s)
         else if \<not> truthy coin
         then (Inl (ErrorResponse 400 ''coin type required''), s)
         else if \<not> truthyVal (getProp (supportedcoins cfg) coin)
         then (Inl (ErrorResponse 400 ''unsupported coin''), s)
         else if \<not> truthy userEmail
         then (Inl (ErrorResponse 400 ''email required''), s)
         else
           (let existingUser = isExistingUser userEmail s
            in case requesterCheck cfg req of
                 Some e \<Rightarrow> (Inl e, s)
               | None \<Rightarrow>
                   (case obtainMasterKey cfg io req key s of
                      (Inl e, s1) \<Rightarrow> (Inl e, s1)
                    | (Inr ((i, masterKey), key1), s1) \<Rightarrow>
                        (case saveWalletKey io req i masterKey key1 s1 of
                           (key2, s2) \<Rightarrow>
                             (case sendKeyEmail cfg io req existingUser key2 s2 of
                                (Inl e, s3) \<Rightarrow> (Inl e, s3)
                              | (Inr u, s3) \<Rightarrow>
                                  (case syncMailchimp cfg io existingUser userEmail s3 of
                                     (Inl e, s4) \<Rightarrow> (Inl e, s4)
                                   | (Inr u, s4) \<Rightarrow>
                                       (case (if truthy (wk_notificationURL key2)
                                              then notifyEndpoint cfg io key2 ''created'' s4
                                              else (Inr (), s4)) of
                                          (Inl e, s5) \<Rightarrow> (Inl e, s5)
                                        | (Inr u, s5) \<Rightarrow>
                                            (Inr \<lparr> r_masterKey = mk_pub masterKey,
                                                   r_path = wk_path key2,
                                                   r_userEmail = wk_userEmail key2,
                                                   r_custom = wk_custom key2,
                                                   r_masterKeySig = mk_signature masterKey,
                                                   r_pub = wk_pub key2 \<rparr>, s5))))))))"

section \<open>A small deployment to evaluate on\<close>

text \<open>
  Two coins, one of each key type, with a pool of one unassigned master key per type; a
  derivation primitive and a keyed digest that show their arguments (the digest throws
  on undefined data, as \<^verbatim>\<open>Hmac.update\<close> does); and a request by customer \<open>c1\<close>.
\<close>

definition exampleConfig :: config where
  "exampleConfig = \<lparr> supportedcoins = [''btc'' \<mapsto> ''xpub'', ''xlm'' \<mapsto> ''xlm''],
     neverReuseMasterKey = False, lowKeyWarningLevels = [0, 5], disableAllKRSEmail = False,
     sendMailChimpNotKRSEMail = False, requesterAuth = None, provider_id = ''krs'',
     provider_secret = ''secret'', adminemail = ''admin@krs'', servicename = ''KRS'',
     serviceurl = ''https://krs'', moreWalletsTags = ''more'', firstWalletTags = ''first'' \<rparr>"

definition exampleEnv :: env where
  "exampleEnv = \<lparr> deriveChildKey = (\<lambda>pub path t. pub @ ''/'' @ path),
     hmacSha256Hex = (\<lambda>secret data. case data of
         None \<Rightarrow> Inl (Rejected ''TypeError'')
       | Some d \<Rightarrow> Inr (''hmac:'' @ secret @ '':'' @ d)),
     now = 1000, adminMailFails = False, userMailFails = False,
     createMemberResult = Inr \<lparr> mc_status = 200, mc_Msg = ''ok'' \<rparr>,
     addTagResult = Inr \<lparr> mc_status = 200, mc_Msg = ''ok'' \<rparr>, postFails = False \<rparr>"

definition freeKey :: "string \<Rightarrow> string \<Rightarrow> MasterKey" where
  "freeKey t p = \<lparr> mk_coin = None, mk_customerId = None, mk_type = t, mk_pub = p,
     mk_keyCount = 0, mk_signature = None \<rparr>"

definition examplePool :: krs where
  "examplePool = \<lparr> masterKeys = [freeKey ''xlm'' ''GA'', freeKey ''xpub'' ''xpubA''],
     walletKeys = [], effects = [] \<rparr>"

definition exampleRequest :: "string \<Rightarrow> body" where
  "exampleRequest c = \<lparr> b_customerId = Some ''c1'', b_coin = Some c,
     b_userEmail = Some ''u@x'', b_notificationURL = None, b_custom = None,
     b_disableKRSEmail = False, b_requesterId = None, b_requesterSecret = None \<rparr>"

text \<open>A pool in which customer \<open>c1\<close> already holds a master key for \<open>btc\<close>, used once.\<close>

definition servedPool :: krs where
  "servedPool = \<lparr> masterKeys =
       [(freeKey ''xpub'' ''xpubA'')\<lparr>mk_coin := Some ''btc'', mk_customerId := Some ''c1'',
           mk_keyCount := 1\<rparr>,
        freeKey ''xpub'' ''xpubB''],
     walletKeys = [], effects = [] \<rparr>"

text \<open>
  The deployment with Mailchimp in place of the owner mail, a Mailchimp that times out,
  and a wallet key document that has a value under \<open>xpub\<close> and a webhook address.
\<close>

definition mailchimpConfig :: config where
  "mailchimpConfig = exampleConfig\<lparr>sendMailChimpNotKRSEMail := True\<rparr>"

definition mailchimpDown :: env where
  "mailchimpDown = exampleEnv\<lparr>createMemberResult := Inl (Rejected ''timeout'')\<rparr>"

definition notifiedKey :: WalletKey where
  "notifiedKey = newWalletKey\<lparr>wk_xpub := Some ''xpubA/0'', wk_userEmail := Some ''u@x'',
     wk_notificationURL := Some ''https://hook''\<rparr>"

text \<open>The deployment with requester authentication required, for a table of clients.\<close>

definition authConfig :: "(string \<rightharpoonup> string) \<Rightarrow> config" where
  "authConfig table = exampleConfig\<lparr>requesterAuth := Some \<lparr>required = True, clients = table\<rparr>\<rparr>"

text \<open>
  A request that asks for a webhook call, and a keyed digest that, unlike the one above,
  accepts undefined data (as the text \<^verbatim>\<open>undefined\<close>).
\<close>

definition hookRequest :: body where
  "hookRequest = (exampleRequest ''btc'')\<lparr>b_notificationURL := Some ''https://hook''\<rparr>"

definition lenientEnv :: env where
  "lenientEnv = exampleEnv\<lparr>hmacSha256Hex :=
     (\<lambda>secret data. Inr (''hmac:'' @ secret @ '':'' @ toStr data))\<rparr>"

section \<open>Facts about the model\<close>

subsection \<open>Searching a collection\<close>

lemma findIndex_SomeD:
  "findIndex P xs = Some i \<Longrightarrow> i < length xs \<and> P (xs ! i) \<and> (\<forall>j<i. \<not> P (xs ! j))"
proof (induction xs arbitrary: i)
  case Nil
  then show ?case by simp
next
  case (Cons x xs)
  show ?case
  proof (cases "P x")
    case True
    with Cons.prems show ?thesis by simp
  next
    case False
    with Cons.prems obtain k where k: "findIndex P xs = Some k" "i = Suc k"
      by auto
    from Cons.IH [OF k(1)] False k(2) show ?thesis
      by (auto simp: less_Suc_eq_0_disj)
  qed
qed

lemma findIndex_None_iff: "findIndex P xs = None \<longleftrightarrow> (\<forall>x\<in>set xs. \<not> P x)"
  by (induction xs) auto

lemma findIndex_Some_iff_ex: "(\<exists>i. findIndex P xs = Some i) \<longleftrightarrow> (\<exists>x\<in>set xs. P x)"
  using findIndex_None_iff [of P xs] by (cases "findIndex P xs") auto

subsection \<open>Claiming from the pool\<close>

lemma provisionMasterKey_exhausted:
  assumes "findIndex (unassigned (getProp (supportedcoins cfg) coin)) (masterKeys s) = None"
  shows "provisionMasterKey cfg io coin customerId s =
           (Inl (ErrorResponse 500
              (''no available '' @ textOf (getProp (supportedcoins cfg) coin) @ '' keys'')), s)"
  using assms by (simp add: provisionMasterKey_def)

lemma provisionMasterKey_claimed:
  assumes "findIndex (unassigned (getProp (supportedcoins cfg) coin)) (masterKeys s) = Some i"
  shows "provisionMasterKey cfg io coin customerId s =
     (let keyType = getProp (supportedcoins cfg) coin;
          key = masterKeys s ! i;
          pool = (masterKeys s)[i := key\<lparr>mk_coin := coin, mk_customerId := customerId,
                                         mk_type := textOf keyType\<rparr>];
          availableKeys = length (filter (unassigned keyType) pool);
          warn = (availableKeys \<in> set (lowKeyWarningLevels cfg) \<and> \<not> disableAllKRSEmail cfg)
      in (if warn \<and> adminMailFails io then Inl (Rejected ''sendMailQ'') else Inr (i, key),
          s\<lparr>masterKeys := pool,
            effects := effects s @ [MasterKeyAssigned i coin customerId] @
              (if warn then [MailQueued (Some (adminemail cfg))
                    ''URGENT: Please replenish the master key database''
                    ''databaselow'' (LowParams availableKeys keyType)] else [])\<rparr>))"
  using assms
  by (simp add: provisionMasterKey_def sendDatabaseLowWarning_def emit_def Let_def)

subsection \<open>A successful request\<close>

text \<open>The three notification steps only add to the record of effects.\<close>

lemma sendKeyEmail_frame:
  assumes "sendKeyEmail cfg io req ex key s = (res, s')"
  shows "masterKeys s' = masterKeys s \<and> walletKeys s' = walletKeys s \<and>
         (\<exists>es. effects s' = effects s @ es)"
  using assms by (auto simp: sendKeyEmail_def emit_def Let_def split: if_splits)

lemma mailchimpFailed_frame:
  assumes "mailchimpFailed e s = (res, s')"
  shows "masterKeys s' = masterKeys s \<and> walletKeys s' = walletKeys s \<and>
         (\<exists>es. effects s' = effects s @ es)"
  using assms by (auto simp: mailchimpFailed_def emit_def)

lemma syncMailchimp_frame:
  assumes "syncMailchimp cfg io ex email s = (res, s')"
  shows "masterKeys s' = masterKeys s \<and> walletKeys s' = walletKeys s \<and>
         (\<exists>es. effects s' = effects s @ es)"
  using assms
  by (auto simp: syncMailchimp_def mailchimpFailed_def emit_def Let_def
      split: if_splits sum.splits)

lemma notifyEndpoint_frame:
  assumes "notifyEndpoint cfg io key st s = (res, s')"
  shows "masterKeys s' = masterKeys s \<and> walletKeys s' = walletKeys s \<and>
         (\<exists>es. effects s' = effects s @ es)"
  using assms
  by (auto simp: notifyEndpoint_def emit_def Let_def split: if_splits sum.splits)

lemma provisionKey_InrE:
  assumes "provisionKey cfg io req s = (Inr r, s')"
  obtains i masterKey key1 s1 key2 s2 es where
    "truthy (b_customerId req)" and "truthy (b_coin req)"
    and "truthyVal (getProp (supportedcoins cfg) (b_coin req))" and "truthy (b_userEmail req)"
    and "requesterCheck cfg req = None"
    and "obtainMasterKey cfg io req newWalletKey s = (Inr ((i, masterKey), key1), s1)"
    and "saveWalletKey io req i masterKey key1 s1 = (key2, s2)"
    and "masterKeys s' = masterKeys s2" and "walletKeys s' = walletKeys s2"
    and "effects s' = effects s2 @ es"
    and "r = \<lparr> r_masterKey = mk_pub masterKey, r_path = wk_path key2,
               r_userEmail = wk_userEmail key2, r_custom = wk_custom key2,
               r_masterKeySig = mk_signature masterKey, r_pub = wk_pub key2 \<rparr>"
proof -
  from assms have v: "truthy (b_customerId req)" "truthy (b_coin req)"
    "truthyVal (getProp (supportedcoins cfg) (b_coin req))" "truthy (b_userEmail req)"
    by (auto simp: provisionKey_def Let_def split: if_splits)
  from assms v have rc: "requesterCheck cfg req = None"
    by (auto simp: provisionKey_def Let_def split: option.splits)
  obtain sel s1 where sel: "obtainMasterKey cfg io req newWalletKey s = (sel, s1)"
    by (cases "obtainMasterKey cfg io req newWalletKey s")
  with assms v rc obtain i masterKey key1 where sel': "sel = Inr ((i, masterKey), key1)"
    by (cases sel) (auto simp: provisionKey_def Let_def)
  obtain key2 s2 where sv: "saveWalletKey io req i masterKey key1 s1 = (key2, s2)"
    by (cases "saveWalletKey io req i masterKey key1 s1")
  obtain m s3 where m: "sendKeyEmail cfg io req (isExistingUser (b_userEmail req) s) key2 s2 = (m, s3)"
    by (cases "sendKeyEmail cfg io req (isExistingUser (b_userEmail req) s) key2 s2")
  obtain c s4 where c: "syncMailchimp cfg io (isExistingUser (b_userEmail req) s) (b_userEmail req) s3 = (c, s4)"
    by (cases "syncMailchimp cfg io (isExistingUser (b_userEmail req) s) (b_userEmail req) s3")
  obtain n s5 where n: "(if truthy (wk_notificationURL key2)
       then notifyEndpoint cfg io key2 ''created'' s4 else (Inr (), s4)) = (n, s5)"
    by (cases "(if truthy (wk_notificationURL key2)
       then notifyEndpoint cfg io key2 ''created'' s4 else (Inr (), s4))")
  from assms v rc sel sel' sv m c n
  have fin: "s' = s5"
    "r = \<lparr> r_masterKey = mk_pub masterKey, r_path = wk_path key2,
               r_userEmail = wk_userEmail key2, r_custom = wk_custom key2,
               r_masterKeySig = mk_signature masterKey, r_pub = wk_pub key2 \<rparr>"
    by (auto simp: provisionKey_def Let_def split: sum.splits)
  from sendKeyEmail_frame [OF m] syncMailchimp_frame [OF c]
  have f4: "masterKeys s4 = masterKeys s2" "walletKeys s4 = walletKeys s2"
    "\<exists>es. effects s4 = effects s2 @ es"
    by auto
  have f5: "masterKeys s5 = masterKeys s4 \<and> walletKeys s5 = walletKeys s4 \<and>
         (\<exists>es. effects s5 = effects s4 @ es)"
  proof (cases "truthy (wk_notificationURL key2)")
    case True
    with n show ?thesis using notifyEndpoint_frame by simp
  next
    case False
    with n show ?thesis by simp
  qed
  from f4 f5 obtain es where "effects s5 = effects s2 @ es" by auto
  with f4 f5 fin sel sel' sv v rc that show ?thesis by simp
qed

subsection \<open>Evaluating the deployment\<close>

lemmas example_defs = exampleConfig_def exampleEnv_def freeKey_def examplePool_def
  exampleRequest_def servedPool_def
  mailchimpConfig_def mailchimpDown_def notifiedKey_def authConfig_def
  hookRequest_def lenientEnv_def

lemmas js_defs = truthy_def toStr_def getProp_def jsOf_def truthyVal_def textOf_def
  objectPrototypeKeys_def

lemmas step_defs = provisionKey_def requesterCheck_def obtainMasterKey_def
  getMasterXpub_def provisionMasterKey_def sendDatabaseLowWarning_def unassigned_def
  saveWalletKey_def sendKeyEmail_def syncMailchimp_def mailchimpFailed_def
  notifyEndpoint_def isExistingUser_def newWalletKey_def emit_def errorText_def

lemma numberToString_digit: "n < 10 \<Longrightarrow> numberToString n = [digitChar n]"
  by (subst numberToString.simps) simp

lemma numberToString_0: "numberToString 0 = ''0''"
  by (simp add: numberToString_digit digitChar_def)

lemma numberToString_1: "numberToString (Suc 0) = ''1''"
  by (simp add: numberToString_digit digitChar_def)

subsection \<open>Validation comes first\<close>

text \<open>
  A request whose \<open>customerId\<close>, \<open>coin\<close> or \<open>userEmail\<close> is missing (or empty), or whose
  coin reads as undefined in the table of supported coins, ends with a 400 error and
  leaves both collections and the record of effects as they were: no master key is
  claimed and no wallet key is written.
\<close>

theorem provisionKey_rejects_invalid_request:
  assumes "\<not> truthy (b_customerId req) \<or> \<not> truthy (b_coin req) \<or> \<not> truthy (b_userEmail req)
           \<or> getProp (supportedcoins cfg) (b_coin req) = Undefined"
  shows "\<exists>msg. provisionKey cfg io req s = (Inl (ErrorResponse 400 msg), s)"
proof -
  have none_falsy: "getProp (supportedcoins cfg) (b_coin req) = Undefined
      \<Longrightarrow> \<not> truthyVal (getProp (supportedcoins cfg) (b_coin req))"
    by (simp add: truthyVal_def)
  from assms none_falsy consider
      (customer) "\<not> truthy (b_customerId req)"
    | (coin) "truthy (b_customerId req)" "\<not> truthy (b_coin req)"
    | (unsupported) "truthy (b_customerId req)" "truthy (b_coin req)"
        "\<not> truthyVal (getProp (supportedcoins cfg) (b_coin req))"
    | (email) "truthy (b_customerId req)" "truthy (b_coin req)"
        "truthyVal (getProp (supportedcoins cfg) (b_coin req))" "\<not> truthy (b_userEmail req)"
    by blast
  then show ?thesis
  proof cases
    case customer
    then show ?thesis by (simp add: provisionKey_def Let_def)
  next
    case coin
    then show ?thesis by (simp add: provisionKey_def Let_def)
  next
    case unsupported
    then show ?thesis by (simp add: provisionKey_def Let_def)
  next
    case email
    then show ?thesis by (simp add: provisionKey_def Let_def)
  qed
qed

theorem provisionKey_rejects_invalid_request_witness:
  "getProp (supportedcoins exampleConfig) (b_coin (exampleRequest ''doge'')) = Undefined \<and>
   provisionKey exampleConfig exampleEnv (exampleRequest ''doge'') examplePool =
     (Inl (ErrorResponse 400 ''unsupported coin''), examplePool) \<and>
   \<not> truthy (b_userEmail ((exampleRequest ''btc'')\<lparr>b_userEmail := None\<rparr>)) \<and>
   provisionKey exampleConfig exampleEnv ((exampleRequest ''btc'')\<lparr>b_userEmail := None\<rparr>)
     examplePool = (Inl (ErrorResponse 400 ''email required''), examplePool)"
proof -
  have h1: "getProp (supportedcoins exampleConfig) (b_coin (exampleRequest ''doge''))
      = Undefined"
    by (simp add: example_defs js_defs)
  have h2: "\<not> truthy (b_userEmail ((exampleRequest ''btc'')\<lparr>b_userEmail := None\<rparr>))"
    by (simp add: js_defs)
  from provisionKey_rejects_invalid_request [of "exampleRequest ''doge''" exampleConfig
      exampleEnv examplePool] h1
  obtain m1 where m1: "provisionKey exampleConfig exampleEnv (exampleRequest ''doge'') examplePool
      = (Inl (ErrorResponse 400 m1), examplePool)"
    by blast
  have e1: "fst (provisionKey exampleConfig exampleEnv (exampleRequest ''doge'') examplePool)
      = Inl (ErrorResponse 400 ''unsupported coin'')"
    by (simp add: provisionKey_def example_defs js_defs)
  from provisionKey_rejects_invalid_request [of "(exampleRequest ''btc'')\<lparr>b_userEmail := None\<rparr>"
      exampleConfig exampleEnv examplePool] h2
  obtain m2 where m2: "provisionKey exampleConfig exampleEnv
      ((exampleRequest ''btc'')\<lparr>b_userEmail := None\<rparr>) examplePool
      = (Inl (ErrorResponse 400 m2), examplePool)"
    by blast
  have e2: "fst (provisionKey exampleConfig exampleEnv
      ((exampleRequest ''btc'')\<lparr>b_userEmail := None\<rparr>) examplePool)
      = Inl (ErrorResponse 400 ''email required'')"
    by (simp add: provisionKey_def example_defs js_defs)
  from m1 e1 m2 e2 h1 h2 show ?thesis by simp
qed

text \<open>
  C7 fails for a coin that is not in the table of supported coins but is the name of a
  member of \<^verbatim>\<open>Object.prototype\<close>. For \<open>constructor\<close> the read at line 119 yields the
  inherited function, which is truthy, so no 400 is thrown: the request goes on to the
  collections and ends with the 500 error of line 67, no unassigned key having that
  function as its type. Nothing is written.
\<close>

theorem inherited_coin_name_passes_validation:
  "supportedcoins exampleConfig ''constructor'' = None \<and>
   getProp (supportedcoins exampleConfig) (b_coin (exampleRequest ''constructor''))
     = Inherited ''constructor'' \<and>
   truthyVal (getProp (supportedcoins exampleConfig) (b_coin (exampleRequest ''constructor''))) \<and>
   fst (provisionKey exampleConfig exampleEnv (exampleRequest ''constructor'') examplePool)
     = Inl (ErrorResponse 500 ''no available function Object() { [native code] } keys'') \<and>
   masterKeys (snd (provisionKey exampleConfig exampleEnv (exampleRequest ''constructor'')
      examplePool)) = masterKeys examplePool \<and>
   walletKeys (snd (provisionKey exampleConfig exampleEnv (exampleRequest ''constructor'')
      examplePool)) = [] \<and>
   effects (snd (provisionKey exampleConfig exampleEnv (exampleRequest ''constructor'')
      examplePool)) = []"
  by (simp add: step_defs example_defs js_defs Let_def)

subsection \<open>An empty pool\<close>

text \<open>
  C4. When no unassigned master key of the coin's key type is left, \<open>provisionMasterKey\<close>
  throws the 500 error \<^verbatim>\<open>no available <type> keys\<close> and changes nothing; a provisioning
  request that has passed validation and the requester check and has to claim a key (the
  coin is a Stellar coin, or reuse is switched off, or the customer has no master key for
  the coin yet) ends with that same error, with no master key assigned and no wallet key
  written.
\<close>

theorem pool_exhausted_is_terminal:
  assumes "\<forall>k\<in>set (masterKeys s). \<not> unassigned (getProp (supportedcoins cfg) (b_coin req)) k"
  shows "provisionMasterKey cfg io (b_coin req) (b_customerId req) s =
           (Inl (ErrorResponse 500 (''no available ''
              @ textOf (getProp (supportedcoins cfg) (b_coin req)) @ '' keys'')), s) \<and>
         (truthy (b_customerId req) \<and> truthy (b_coin req) \<and> truthy (b_userEmail req) \<and>
          truthyVal (getProp (supportedcoins cfg) (b_coin req)) \<and> requesterCheck cfg req = None \<and>
          (getProp (supportedcoins cfg) (b_coin req) = Str ''xlm'' \<or> neverReuseMasterKey cfg \<or>
           (\<forall>k\<in>set (masterKeys s).
              \<not> (mk_coin k = b_coin req \<and> mk_customerId k = b_customerId req)))
          \<longrightarrow> provisionKey cfg io req s =
                (Inl (ErrorResponse 500 (''no available ''
                   @ textOf (getProp (supportedcoins cfg) (b_coin req)) @ '' keys'')), s))"
proof -
  let ?err = "ErrorResponse 500 (''no available ''
                @ textOf (getProp (supportedcoins cfg) (b_coin req)) @ '' keys'')"
  from assms
  have none: "findIndex (unassigned (getProp (supportedcoins cfg) (b_coin req))) (masterKeys s)
                = None"
    by (simp add: findIndex_None_iff)
  then have claim: "provisionMasterKey cfg io (b_coin req) (b_customerId req) s = (Inl ?err, s)"
    by (rule provisionMasterKey_exhausted)
  have "provisionKey cfg io req s = (Inl ?err, s)"
    if valid: "truthy (b_customerId req)" "truthy (b_coin req)" "truthy (b_userEmail req)"
        "truthyVal (getProp (supportedcoins cfg) (b_coin req))" "requesterCheck cfg req = None"
      and must: "getProp (supportedcoins cfg) (b_coin req) = Str ''xlm'' \<or>
        neverReuseMasterKey cfg \<or>
        (\<forall>k\<in>set (masterKeys s). \<not> (mk_coin k = b_coin req \<and> mk_customerId k = b_customerId req))"
  proof -
    have get: "getProp (supportedcoins cfg) (b_coin req) \<noteq> Str ''xlm''
        \<Longrightarrow> getMasterXpub cfg io (b_coin req) (b_customerId req) s = (Inl ?err, s)"
    proof (cases "neverReuseMasterKey cfg")
      case True
      with claim show ?thesis by (simp add: getMasterXpub_def)
    next
      case False
      assume "getProp (supportedcoins cfg) (b_coin req) \<noteq> Str ''xlm''"
      with must False
      have "findIndex (\<lambda>k. mk_coin k = b_coin req \<and> mk_customerId k = b_customerId req)
              (masterKeys s) = None"
        by (simp add: findIndex_None_iff)
      with claim False show ?thesis by (simp add: getMasterXpub_def)
    qed
    have "obtainMasterKey cfg io req newWalletKey s = (Inl ?err, s)"
      using claim get by (simp add: obtainMasterKey_def)
    with valid show ?thesis by (simp add: provisionKey_def Let_def)
  qed
  with claim show ?thesis by blast
qed

theorem pool_exhausted_is_terminal_witness:
  "filter (unassigned (getProp (supportedcoins exampleConfig) (b_coin (exampleRequest ''btc''))))
      (masterKeys (examplePool\<lparr>masterKeys := [freeKey ''xlm'' ''GA'']\<rparr>)) = [] \<and>
   provisionKey exampleConfig exampleEnv (exampleRequest ''btc'')
      (examplePool\<lparr>masterKeys := [freeKey ''xlm'' ''GA'']\<rparr>) =
     (Inl (ErrorResponse 500 ''no available xpub keys''),
      examplePool\<lparr>masterKeys := [freeKey ''xlm'' ''GA'']\<rparr>)"
proof -
  let ?s = "examplePool\<lparr>masterKeys := [freeKey ''xlm'' ''GA'']\<rparr>"
  have h: "\<forall>k\<in>set (masterKeys ?s).
      \<not> unassigned (getProp (supportedcoins exampleConfig) (b_coin (exampleRequest ''btc''))) k"
    by (simp add: example_defs js_defs unassigned_def)
  have pre: "truthy (b_customerId (exampleRequest ''btc''))"
    "truthy (b_coin (exampleRequest ''btc''))" "truthy (b_userEmail (exampleRequest ''btc''))"
    "truthyVal (getProp (supportedcoins exampleConfig) (b_coin (exampleRequest ''btc'')))"
    "requesterCheck exampleConfig (exampleRequest ''btc'') = None"
    "\<forall>k\<in>set (masterKeys ?s). \<not> (mk_coin k = b_coin (exampleRequest ''btc'') \<and>
        mk_customerId k = b_customerId (exampleRequest ''btc''))"
    by (simp_all add: example_defs js_defs requesterCheck_def)
  have msg: "textOf (getProp (supportedcoins exampleConfig) (b_coin (exampleRequest ''btc'')))
      = ''xpub''"
    by (simp add: example_defs js_defs)
  from pool_exhausted_is_terminal [OF h, of exampleEnv] pre msg h show ?thesis
    by simp
qed

subsection \<open>The low supply warning\<close>

text \<open>
  C6, as the code has it. After a successful claim the unassigned keys of the key type
  are counted again, and the warning mail to the administrator, carrying that count and
  the key type, is queued exactly when the count is one of \<open>lowKeyWarningLevels\<close> and
  \<open>disableAllKRSEmail\<close> is not set; nothing else is emitted by the claim.
\<close>

theorem low_supply_warning:
  assumes "\<exists>k\<in>set (masterKeys s). unassigned (getProp (supportedcoins cfg) coin) k"
  shows "\<exists>i. effects (snd (provisionMasterKey cfg io coin customerId s)) =
           effects s @ [MasterKeyAssigned i coin customerId] @
           (if length (filter (unassigned (getProp (supportedcoins cfg) coin))
                  (masterKeys (snd (provisionMasterKey cfg io coin customerId s))))
                 \<in> set (lowKeyWarningLevels cfg) \<and> \<not> disableAllKRSEmail cfg
            then [MailQueued (Some (adminemail cfg))
                    ''URGENT: Please replenish the master key database'' ''databaselow''
                    (LowParams
                       (length (filter (unassigned (getProp (supportedcoins cfg) coin))
                          (masterKeys (snd (provisionMasterKey cfg io coin customerId s)))))
                       (getProp (supportedcoins cfg) coin))]
            else [])"
proof -
  from assms obtain i where
    i: "findIndex (unassigned (getProp (supportedcoins cfg) coin)) (masterKeys s) = Some i"
    using findIndex_Some_iff_ex [of "unassigned (getProp (supportedcoins cfg) coin)" "masterKeys s"]
    by blast
  show ?thesis
    by (rule exI [of _ i]) (simp add: provisionMasterKey_claimed [OF i] Let_def)
qed

theorem low_supply_warning_witness:
  "filter (unassigned (getProp (supportedcoins exampleConfig) (Some ''btc'')))
      (masterKeys examplePool) = [freeKey ''xpub'' ''xpubA''] \<and>
   effects (snd (provisionMasterKey exampleConfig exampleEnv (Some ''btc'') (Some ''c1'')
      examplePool)) =
     [MasterKeyAssigned 1 (Some ''btc'') (Some ''c1''),
      MailQueued (Some ''admin@krs'') ''URGENT: Please replenish the master key database''
        ''databaselow'' (LowParams 0 (Str ''xpub''))]"
proof -
  have f: "filter (unassigned (getProp (supportedcoins exampleConfig) (Some ''btc'')))
      (masterKeys examplePool) = [freeKey ''xpub'' ''xpubA'']"
    by (simp add: example_defs js_defs unassigned_def)
  have h: "\<exists>k\<in>set (masterKeys examplePool).
      unassigned (getProp (supportedcoins exampleConfig) (Some ''btc'')) k"
    by (simp add: example_defs js_defs unassigned_def)
  have ev: "effects (snd (provisionMasterKey exampleConfig exampleEnv (Some ''btc'')
      (Some ''c1'') examplePool)) =
     [MasterKeyAssigned 1 (Some ''btc'') (Some ''c1''),
      MailQueued (Some ''admin@krs'') ''URGENT: Please replenish the master key database''
        ''databaselow'' (LowParams 0 (Str ''xpub''))]"
    by (simp add: provisionMasterKey_def sendDatabaseLowWarning_def emit_def unassigned_def
        example_defs js_defs Let_def)
  from low_supply_warning [OF h, of exampleEnv "Some ''c1''"] f ev show ?thesis
    by simp
qed

text \<open>
  The claim as stated fails where \<open>disableAllKRSEmail\<close> is set: the count left after the
  claim is a warning level, and no warning is emitted.
\<close>

theorem low_supply_warning_counterexample:
  "fst (provisionMasterKey (exampleConfig\<lparr>disableAllKRSEmail := True\<rparr>) exampleEnv
      (Some ''btc'') (Some ''c1'') examplePool) = Inr (1, freeKey ''xpub'' ''xpubA'') \<and>
   length (filter (unassigned (Str ''xpub''))
      (masterKeys (snd (provisionMasterKey (exampleConfig\<lparr>disableAllKRSEmail := True\<rparr>)
         exampleEnv (Some ''btc'') (Some ''c1'') examplePool)))) = 0 \<and>
   0 \<in> set (lowKeyWarningLevels (exampleConfig\<lparr>disableAllKRSEmail := True\<rparr>)) \<and>
   effects (snd (provisionMasterKey (exampleConfig\<lparr>disableAllKRSEmail := True\<rparr>) exampleEnv
      (Some ''btc'') (Some ''c1'') examplePool)) =
     [MasterKeyAssigned 1 (Some ''btc'') (Some ''c1'')]"
  by (simp add: provisionMasterKey_def sendDatabaseLowWarning_def emit_def unassigned_def
      example_defs js_defs Let_def)

subsection \<open>Claim or reuse\<close>

lemma provisionMasterKey_fresh:
  assumes "provisionMasterKey cfg io coin customerId s = (Inr (i, key), s')"
  shows "i < length (masterKeys s) \<and> key = masterKeys s ! i \<and>
         unassigned (getProp (supportedcoins cfg) coin) key \<and>
         masterKeys s' = (masterKeys s)[i := key\<lparr>mk_coin := coin, mk_customerId := customerId\<rparr>]
         \<and> walletKeys s' = walletKeys s"
proof (cases "findIndex (unassigned (getProp (supportedcoins cfg) coin)) (masterKeys s)")
  case None
  with assms show ?thesis by (simp add: provisionMasterKey_exhausted)
next
  case (Some j)
  from findIndex_SomeD [OF Some]
  have j: "j < length (masterKeys s)"
    "unassigned (getProp (supportedcoins cfg) coin) (masterKeys s ! j)"
    by simp_all
  from j(2) have "getProp (supportedcoins cfg) coin = Str (mk_type (masterKeys s ! j))"
    by (simp add: unassigned_def)
  then have ty: "textOf (getProp (supportedcoins cfg) coin) = mk_type (masterKeys s ! j)"
    by (simp add: textOf_def)
  from assms have "i = j" "key = masterKeys s ! j"
    "s' = snd (provisionMasterKey cfg io coin customerId s)"
    by (auto simp: provisionMasterKey_claimed [OF Some] Let_def split: if_splits)
  with j ty show ?thesis
    by (simp add: provisionMasterKey_claimed [OF Some] Let_def)
qed

text \<open>
  C3. With \<open>neverReuseMasterKey\<close> set, \<open>getMasterXpub\<close> is a claim of a new master key.
  Without it, a master key already assigned to the coin and customer is returned and nothing
  is written; only when there is none is a new key claimed. A key that is claimed was
  unassigned and of the coin's key type before, and is assigned to the coin and customer
  afterwards.
\<close>

theorem getMasterXpub_claims_or_reuses:
  "(neverReuseMasterKey cfg \<longrightarrow>
      getMasterXpub cfg io coin customerId s = provisionMasterKey cfg io coin customerId s) \<and>
   (\<not> neverReuseMasterKey cfg \<and>
    (\<exists>k\<in>set (masterKeys s). mk_coin k = coin \<and> mk_customerId k = customerId) \<longrightarrow>
      (\<exists>i. i < length (masterKeys s) \<and> mk_coin (masterKeys s ! i) = coin \<and>
           mk_customerId (masterKeys s ! i) = customerId \<and>
           getMasterXpub cfg io coin customerId s = (Inr (i, masterKeys s ! i), s))) \<and>
   (\<not> neverReuseMasterKey cfg \<and>
    (\<forall>k\<in>set (masterKeys s). \<not> (mk_coin k = coin \<and> mk_customerId k = customerId)) \<longrightarrow>
      getMasterXpub cfg io coin customerId s = provisionMasterKey cfg io coin customerId s) \<and>
   (\<forall>i key s'. provisionMasterKey cfg io coin customerId s = (Inr (i, key), s') \<longrightarrow>
      i < length (masterKeys s) \<and> key = masterKeys s ! i \<and>
      mk_coin key = None \<and> mk_customerId key = None \<and>
      Str (mk_type key) = getProp (supportedcoins cfg) coin \<and>
      mk_coin (masterKeys s' ! i) = coin \<and> mk_customerId (masterKeys s' ! i) = customerId)"
proof -
  have never: "getMasterXpub cfg io coin customerId s
      = provisionMasterKey cfg io coin customerId s" if "neverReuseMasterKey cfg"
    using that by (simp add: getMasterXpub_def)
  have reuse: "\<exists>i. i < length (masterKeys s) \<and> mk_coin (masterKeys s ! i) = coin \<and>
           mk_customerId (masterKeys s ! i) = customerId \<and>
           getMasterXpub cfg io coin customerId s = (Inr (i, masterKeys s ! i), s)"
    if a: "\<not> neverReuseMasterKey cfg \<and>
      (\<exists>k\<in>set (masterKeys s). mk_coin k = coin \<and> mk_customerId k = customerId)"
  proof -
    from a obtain i where
      i: "findIndex (\<lambda>k. mk_coin k = coin \<and> mk_customerId k = customerId) (masterKeys s) = Some i"
      using findIndex_Some_iff_ex
        [of "\<lambda>k. mk_coin k = coin \<and> mk_customerId k = customerId" "masterKeys s"]
      by blast
    from findIndex_SomeD [OF i] a i show ?thesis
      by (intro exI [of _ i]) (simp add: getMasterXpub_def)
  qed
  have first: "getMasterXpub cfg io coin customerId s
      = provisionMasterKey cfg io coin customerId s"
    if a: "\<not> neverReuseMasterKey cfg \<and>
      (\<forall>k\<in>set (masterKeys s). \<not> (mk_coin k = coin \<and> mk_customerId k = customerId))"
  proof -
    from a have "findIndex (\<lambda>k. mk_coin k = coin \<and> mk_customerId k = customerId)
        (masterKeys s) = None"
      by (simp add: findIndex_None_iff)
    with a show ?thesis by (simp add: getMasterXpub_def)
  qed
  have fresh: "i < length (masterKeys s) \<and> key = masterKeys s ! i \<and>
      mk_coin key = None \<and> mk_customerId key = None \<and>
      Str (mk_type key) = getProp (supportedcoins cfg) coin \<and>
      mk_coin (masterKeys s' ! i) = coin \<and> mk_customerId (masterKeys s' ! i) = customerId"
    if p: "provisionMasterKey cfg io coin customerId s = (Inr (i, key), s')" for i key s'
    using provisionMasterKey_fresh [OF p] by (auto simp: unassigned_def)
  from never reuse first fresh show ?thesis by blast
qed

theorem getMasterXpub_claims_or_reuses_witness:
  "getMasterXpub exampleConfig exampleEnv (Some ''btc'') (Some ''c1'') servedPool =
     (Inr (0, masterKeys servedPool ! 0), servedPool) \<and>
   fst (getMasterXpub exampleConfig exampleEnv (Some ''btc'') (Some ''c2'') servedPool) =
     Inr (1, freeKey ''xpub'' ''xpubB'') \<and>
   fst (getMasterXpub (exampleConfig\<lparr>neverReuseMasterKey := True\<rparr>) exampleEnv
          (Some ''btc'') (Some ''c1'') servedPool) =
     Inr (1, freeKey ''xpub'' ''xpubB'') \<and>
   mk_customerId (masterKeys (snd (getMasterXpub (exampleConfig\<lparr>neverReuseMasterKey := True\<rparr>)
          exampleEnv (Some ''btc'') (Some ''c1'') servedPool)) ! 1) = Some ''c1''"
proof -
  note t1 = getMasterXpub_claims_or_reuses
    [of exampleConfig exampleEnv "Some ''btc''" "Some ''c1''" servedPool]
  note t2 = getMasterXpub_claims_or_reuses
    [of exampleConfig exampleEnv "Some ''btc''" "Some ''c2''" servedPool]
  note t3 = getMasterXpub_claims_or_reuses
    [of "exampleConfig\<lparr>neverReuseMasterKey := True\<rparr>" exampleEnv "Some ''btc''" "Some ''c1''"
      servedPool]
  have reuse: "\<not> neverReuseMasterKey exampleConfig"
    "\<exists>k\<in>set (masterKeys servedPool). mk_coin k = Some ''btc'' \<and> mk_customerId k = Some ''c1''"
    "\<forall>k\<in>set (masterKeys servedPool). \<not> (mk_coin k = Some ''btc'' \<and> mk_customerId k = Some ''c2'')"
    "neverReuseMasterKey (exampleConfig\<lparr>neverReuseMasterKey := True\<rparr>)"
    by (simp_all add: example_defs)
  have claim2: "provisionMasterKey exampleConfig exampleEnv (Some ''btc'') (Some ''c2'') servedPool
      = (Inr (1, freeKey ''xpub'' ''xpubB''),
         snd (provisionMasterKey exampleConfig exampleEnv (Some ''btc'') (Some ''c2'') servedPool))"
    by (simp add: provisionMasterKey_def sendDatabaseLowWarning_def emit_def unassigned_def
        example_defs js_defs Let_def)
  have claim3: "provisionMasterKey (exampleConfig\<lparr>neverReuseMasterKey := True\<rparr>) exampleEnv
        (Some ''btc'') (Some ''c1'') servedPool
      = (Inr (1, freeKey ''xpub'' ''xpubB''),
         snd (provisionMasterKey (exampleConfig\<lparr>neverReuseMasterKey := True\<rparr>) exampleEnv
        (Some ''btc'') (Some ''c1'') servedPool))"
    by (simp add: provisionMasterKey_def sendDatabaseLowWarning_def emit_def unassigned_def
        example_defs js_defs Let_def)
  from t1 reuse obtain i where i: "i < length (masterKeys servedPool)"
    "mk_customerId (masterKeys servedPool ! i) = Some ''c1''"
    "getMasterXpub exampleConfig exampleEnv (Some ''btc'') (Some ''c1'') servedPool =
      (Inr (i, masterKeys servedPool ! i), servedPool)"
    by blast
  from i(1,2) have "i = 0"
    by (cases i) (simp_all add: example_defs)
  with i have c1: "getMasterXpub exampleConfig exampleEnv (Some ''btc'') (Some ''c1'') servedPool =
     (Inr (0, masterKeys servedPool ! 0), servedPool)"
    by simp
  from t2 reuse claim2
  have c2: "fst (getMasterXpub exampleConfig exampleEnv (Some ''btc'') (Some ''c2'') servedPool) =
     Inr (1, freeKey ''xpub'' ''xpubB'')"
    by (metis fst_conv)
  from t3 reuse
  have eq3: "getMasterXpub (exampleConfig\<lparr>neverReuseMasterKey := True\<rparr>) exampleEnv
          (Some ''btc'') (Some ''c1'') servedPool =
       provisionMasterKey (exampleConfig\<lparr>neverReuseMasterKey := True\<rparr>) exampleEnv
          (Some ''btc'') (Some ''c1'') servedPool"
    by blast
  with claim3 have c3: "fst (getMasterXpub (exampleConfig\<lparr>neverReuseMasterKey := True\<rparr>)
      exampleEnv (Some ''btc'') (Some ''c1'') servedPool) = Inr (1, freeKey ''xpub'' ''xpubB'')"
    by (metis fst_conv)
  from t3 claim3
  have "mk_customerId (masterKeys (snd (provisionMasterKey
      (exampleConfig\<lparr>neverReuseMasterKey := True\<rparr>) exampleEnv (Some ''btc'') (Some ''c1'')
      servedPool)) ! 1) = Some ''c1''"
    by blast
  with eq3 c1 c2 c3 show ?thesis by simp
qed

subsection \<open>Issuing the wallet key\<close>

lemma getMasterXpub_stored:
  assumes "getMasterXpub cfg io coin customerId s = (Inr (i, masterKey), s1)"
  shows "i < length (masterKeys s1) \<and> masterKey = masterKeys s ! i \<and>
         mk_keyCount (masterKeys s1 ! i) = mk_keyCount masterKey \<and>
         walletKeys s1 = walletKeys s"
proof (cases "getMasterXpub cfg io coin customerId s = provisionMasterKey cfg io coin customerId s")
  case True
  with assms provisionMasterKey_fresh [of cfg io coin customerId s i masterKey s1]
  show ?thesis by auto
next
  case False
  then obtain j where
    j: "findIndex (\<lambda>k. mk_coin k = coin \<and> mk_customerId k = customerId) (masterKeys s) = Some j"
    by (auto simp: getMasterXpub_def split: if_splits option.splits)
  with False assms have "i = j" "masterKey = masterKeys s ! j" "s1 = s"
    by (auto simp: getMasterXpub_def split: if_splits)
  with findIndex_SomeD [OF j] show ?thesis by simp
qed

lemma saveWalletKey_writes:
  assumes "saveWalletKey io req i masterKey key s = (key2, s2)"
  shows "\<exists>wk. walletKeys s2 = walletKeys s @ [wk] \<and>
           effects s2 = effects s @ [WalletKeySaved wk, KeyCountIncremented i] \<and>
           masterKeys s2 = (masterKeys s)
             [i := (masterKeys s ! i)\<lparr>mk_keyCount := mk_keyCount (masterKeys s ! i) + 1\<rparr>] \<and>
           wk_pub wk = wk_pub key \<and> wk_path wk = Some (mk_keyCount masterKey) \<and>
           wk_masterKey wk = Some (mk_pub masterKey) \<and> wk_custom wk = wk_custom key2 \<and>
           wk_pub key2 = wk_pub key \<and> wk_xpub key2 = wk_xpub key \<and>
           wk_path key2 = Some (mk_keyCount masterKey) \<and>
           wk_userEmail key2 = b_userEmail req \<and>
           wk_notificationURL key2 = b_notificationURL req \<and>
           wk_custom key2 = Some ((case b_custom req of None \<Rightarrow> Map.empty | Some c \<Rightarrow> c)
                                    (''created'' \<mapsto> CDate (now io)))"
  using assms by (auto simp: saveWalletKey_def emit_def Let_def)

text \<open>
  C2. A successful request for a coin that is not a Stellar coin obtains its master key
  from \<open>getMasterXpub\<close>, takes the key's \<open>keyCount\<close> as the path, derives the wallet key's
  public key from the master public key at that path, saves the wallet key with that
  path, and after the save increments the stored \<open>keyCount\<close> of that master key by one.
\<close>

theorem derivable_coin_derives_then_increments:
  assumes "getProp (supportedcoins cfg) (b_coin req) \<noteq> Str ''xlm''"
    and "provisionKey cfg io req s = (Inr r, s')"
  shows "\<exists>i masterKey s1 wk es.
           getMasterXpub cfg io (b_coin req) (b_customerId req) s = (Inr (i, masterKey), s1) \<and>
           i < length (masterKeys s1) \<and>
           mk_keyCount (masterKeys s1 ! i) = mk_keyCount masterKey \<and>
           r_masterKey r = mk_pub masterKey \<and>
           r_path r = Some (mk_keyCount masterKey) \<and>
           r_pub r = Some (deriveChildKey io (mk_pub masterKey)
                             (numberToString (mk_keyCount masterKey)) ''xpub'') \<and>
           wk_pub wk = r_pub r \<and> wk_path wk = r_path r \<and>
           wk_masterKey wk = Some (mk_pub masterKey) \<and>
           walletKeys s' = walletKeys s @ [wk] \<and>
           effects s' = effects s1 @ [WalletKeySaved wk, KeyCountIncremented i] @ es \<and>
           masterKeys s' = (masterKeys s1)
             [i := (masterKeys s1 ! i)\<lparr>mk_keyCount := mk_keyCount masterKey + 1\<rparr>]"
proof -
  from assms(2) obtain i masterKey key1 s1 key2 s2 es where
    sel: "obtainMasterKey cfg io req newWalletKey s = (Inr ((i, masterKey), key1), s1)"
    and sv: "saveWalletKey io req i masterKey key1 s1 = (key2, s2)"
    and fr: "masterKeys s' = masterKeys s2" "walletKeys s' = walletKeys s2"
      "effects s' = effects s2 @ es"
    and r: "r = \<lparr> r_masterKey = mk_pub masterKey, r_path = wk_path key2,
               r_userEmail = wk_userEmail key2, r_custom = wk_custom key2,
               r_masterKeySig = mk_signature masterKey, r_pub = wk_pub key2 \<rparr>"
    by (rule provisionKey_InrE)
  from sel assms(1)
  have get: "getMasterXpub cfg io (b_coin req) (b_customerId req) s = (Inr (i, masterKey), s1)"
    and k1: "wk_pub key1 = Some (deriveChildKey io (mk_pub masterKey)
                             (numberToString (mk_keyCount masterKey)) ''xpub'')"
    by (auto simp: obtainMasterKey_def split: prod.splits sum.splits)
  from getMasterXpub_stored [OF get]
  have st: "i < length (masterKeys s1)" "mk_keyCount (masterKeys s1 ! i) = mk_keyCount masterKey"
    "walletKeys s1 = walletKeys s"
    by simp_all
  from saveWalletKey_writes [OF sv] obtain wk where
    wk: "walletKeys s2 = walletKeys s1 @ [wk]"
      "effects s2 = effects s1 @ [WalletKeySaved wk, KeyCountIncremented i]"
      "masterKeys s2 = (masterKeys s1)
             [i := (masterKeys s1 ! i)\<lparr>mk_keyCount := mk_keyCount (masterKeys s1 ! i) + 1\<rparr>]"
      "wk_pub wk = wk_pub key1" "wk_path wk = Some (mk_keyCount masterKey)"
      "wk_masterKey wk = Some (mk_pub masterKey)"
      "wk_pub key2 = wk_pub key1" "wk_path key2 = Some (mk_keyCount masterKey)"
    by blast
  show ?thesis
    apply (rule exI [of _ i], rule exI [of _ masterKey], rule exI [of _ s1],
        rule exI [of _ wk], rule exI [of _ es])
    using get st wk fr r k1 by simp
qed

theorem derivable_coin_derives_then_increments_witness:
  "getProp (supportedcoins exampleConfig) (b_coin (exampleRequest ''btc'')) = Str ''xpub'' \<and>
   \<not> isl (fst (provisionKey exampleConfig exampleEnv (exampleRequest ''btc'') servedPool)) \<and>
   r_path (projr (fst (provisionKey exampleConfig exampleEnv (exampleRequest ''btc'') servedPool)))
     = Some 1 \<and>
   r_pub (projr (fst (provisionKey exampleConfig exampleEnv (exampleRequest ''btc'') servedPool)))
     = Some ''xpubA/1'' \<and>
   map mk_keyCount (masterKeys (snd (provisionKey exampleConfig exampleEnv
      (exampleRequest ''btc'') servedPool))) = [2, 0]"
proof -
  obtain r s' where run: "provisionKey exampleConfig exampleEnv (exampleRequest ''btc'') servedPool
      = (Inr r, s')"
    by (simp add: step_defs example_defs js_defs Let_def)
  have coin: "getProp (supportedcoins exampleConfig) (b_coin (exampleRequest ''btc''))
      = Str ''xpub''"
    by (simp add: example_defs js_defs)
  then have h: "getProp (supportedcoins exampleConfig) (b_coin (exampleRequest ''btc''))
      \<noteq> Str ''xlm''"
    by simp
  have get: "getMasterXpub exampleConfig exampleEnv (b_coin (exampleRequest ''btc''))
      (b_customerId (exampleRequest ''btc'')) servedPool
      = (Inr (0, masterKeys servedPool ! 0), servedPool)"
    by (simp add: getMasterXpub_def example_defs)
  have mk: "masterKeys servedPool ! 0 = (freeKey ''xpub'' ''xpubA'')
      \<lparr>mk_coin := Some ''btc'', mk_customerId := Some ''c1'', mk_keyCount := 1\<rparr>"
    "map mk_keyCount (masterKeys servedPool) = [1, 0]"
    by (simp_all add: example_defs)
  from derivable_coin_derives_then_increments [OF h run] get mk
  have "r_path r = Some 1 \<and>
     r_pub r = Some (deriveChildKey exampleEnv ''xpubA'' (numberToString 1) ''xpub'') \<and>
     map mk_keyCount (masterKeys s') = [2, 0]"
    by (auto simp: freeKey_def servedPool_def map_update)
  with run coin show ?thesis
    by (simp add: exampleEnv_def numberToString_1)
qed

text \<open>
  C1, as the code has it. A successful request for a Stellar coin claims an unassigned
  master key of type \<open>xlm\<close>; the wallet key's public key is that master key's own public
  key and its path is the \<open>keyCount\<close> the master key was stored with (0 for a key never
  used before). The stored \<open>keyCount\<close> of the claimed key is then incremented by one,
  as for every other coin.
\<close>

theorem stellar_wallet_key_is_master_key:
  assumes "getProp (supportedcoins cfg) (b_coin req) = Str ''xlm''"
    and "provisionKey cfg io req s = (Inr r, s')"
  shows "\<exists>i masterKey wk.
           i < length (masterKeys s) \<and> masterKey = masterKeys s ! i \<and>
           unassigned (Str ''xlm'') masterKey \<and>
           r_masterKey r = mk_pub masterKey \<and>
           r_pub r = Some (mk_pub masterKey) \<and>
           r_path r = Some (mk_keyCount masterKey) \<and>
           walletKeys s' = walletKeys s @ [wk] \<and>
           wk_pub wk = Some (mk_pub masterKey) \<and>
           wk_path wk = Some (mk_keyCount masterKey) \<and>
           masterKeys s' = (masterKeys s)
             [i := masterKey\<lparr>mk_coin := b_coin req, mk_customerId := b_customerId req,
                             mk_keyCount := mk_keyCount masterKey + 1\<rparr>]"
proof -
  from assms(2) obtain i masterKey key1 s1 key2 s2 es where
    sel: "obtainMasterKey cfg io req newWalletKey s = (Inr ((i, masterKey), key1), s1)"
    and sv: "saveWalletKey io req i masterKey key1 s1 = (key2, s2)"
    and fr: "masterKeys s' = masterKeys s2" "walletKeys s' = walletKeys s2"
    and r: "r = \<lparr> r_masterKey = mk_pub masterKey, r_path = wk_path key2,
               r_userEmail = wk_userEmail key2, r_custom = wk_custom key2,
               r_masterKeySig = mk_signature masterKey, r_pub = wk_pub key2 \<rparr>"
    by (rule provisionKey_InrE)
  from sel assms(1)
  have claim: "provisionMasterKey cfg io (b_coin req) (b_customerId req) s
                 = (Inr (i, masterKey), s1)"
    and k1: "wk_pub key1 = Some (mk_pub masterKey)"
    by (auto simp: obtainMasterKey_def split: prod.splits sum.splits)
  from provisionMasterKey_fresh [OF claim] assms(1)
  have fresh: "i < length (masterKeys s)" "masterKey = masterKeys s ! i"
    "unassigned (Str ''xlm'') masterKey"
    "masterKeys s1 = (masterKeys s)
       [i := masterKey\<lparr>mk_coin := b_coin req, mk_customerId := b_customerId req\<rparr>]"
    "walletKeys s1 = walletKeys s"
    by auto
  from saveWalletKey_writes [OF sv] obtain wk where
    wk: "walletKeys s2 = walletKeys s1 @ [wk]"
      "masterKeys s2 = (masterKeys s1)
             [i := (masterKeys s1 ! i)\<lparr>mk_keyCount := mk_keyCount (masterKeys s1 ! i) + 1\<rparr>]"
      "wk_pub wk = wk_pub key1" "wk_path wk = Some (mk_keyCount masterKey)"
      "wk_pub key2 = wk_pub key1" "wk_path key2 = Some (mk_keyCount masterKey)"
    by blast
  show ?thesis
    apply (rule exI [of _ i], rule exI [of _ masterKey], rule exI [of _ wk])
    using fresh wk fr r k1 by simp
qed

theorem stellar_wallet_key_is_master_key_witness:
  "getProp (supportedcoins exampleConfig) (b_coin (exampleRequest ''xlm'')) = Str ''xlm'' \<and>
   \<not> isl (fst (provisionKey exampleConfig exampleEnv (exampleRequest ''xlm'') examplePool)) \<and>
   r_pub (projr (fst (provisionKey exampleConfig exampleEnv (exampleRequest ''xlm'') examplePool)))
     = Some ''GA'' \<and>
   r_path (projr (fst (provisionKey exampleConfig exampleEnv (exampleRequest ''xlm'') examplePool)))
     = Some 0 \<and>
   masterKeys (snd (provisionKey exampleConfig exampleEnv (exampleRequest ''xlm'') examplePool))
     = [(freeKey ''xlm'' ''GA'')\<lparr>mk_coin := Some ''xlm'', mk_customerId := Some ''c1'',
           mk_keyCount := 1\<rparr>, freeKey ''xpub'' ''xpubA'']"
proof -
  obtain r s' where run: "provisionKey exampleConfig exampleEnv (exampleRequest ''xlm'') examplePool
      = (Inr r, s')"
    by (simp add: step_defs example_defs js_defs Let_def)
  have coin: "getProp (supportedcoins exampleConfig) (b_coin (exampleRequest ''xlm''))
      = Str ''xlm''"
    by (simp add: example_defs js_defs)
  from stellar_wallet_key_is_master_key [OF coin run] obtain i masterKey where
    t: "i < length (masterKeys examplePool)" "masterKey = masterKeys examplePool ! i"
      "unassigned (Str ''xlm'') masterKey"
      "r_pub r = Some (mk_pub masterKey)" "r_path r = Some (mk_keyCount masterKey)"
      "masterKeys s' = (masterKeys examplePool)
             [i := masterKey\<lparr>mk_coin := b_coin (exampleRequest ''xlm''),
                             mk_customerId := b_customerId (exampleRequest ''xlm''),
                             mk_keyCount := mk_keyCount masterKey + 1\<rparr>]"
    by blast
  from t(1,2,3) have "i = 0"
    by (cases i) (simp_all add: example_defs unassigned_def)
  with t run coin show ?thesis
    by (simp add: example_defs)
qed

text \<open>
  The claim as stated fails on the increment: the claimed Stellar key is stored with
  \<open>keyCount\<close> 0 before the request and with \<open>keyCount\<close> 1 after it.
\<close>

theorem stellar_keyCount_counterexample:
  "getProp (supportedcoins exampleConfig) (b_coin (exampleRequest ''xlm'')) = Str ''xlm'' \<and>
   \<not> isl (fst (provisionKey exampleConfig exampleEnv (exampleRequest ''xlm'') examplePool)) \<and>
   r_masterKey (projr (fst (provisionKey exampleConfig exampleEnv (exampleRequest ''xlm'')
      examplePool))) = ''GA'' \<and>
   map mk_pub (masterKeys examplePool) = [''GA'', ''xpubA''] \<and>
   map mk_keyCount (masterKeys examplePool) = [0, 0] \<and>
   map mk_pub (masterKeys (snd (provisionKey exampleConfig exampleEnv
      (exampleRequest ''xlm'') examplePool))) = [''GA'', ''xpubA''] \<and>
   map mk_keyCount (masterKeys (snd (provisionKey exampleConfig exampleEnv
      (exampleRequest ''xlm'') examplePool))) = [1, 0]"
  by (simp add: step_defs example_defs js_defs Let_def)

subsection \<open>The custom object\<close>

lemma obtainMasterKey_walletKeys:
  assumes "obtainMasterKey cfg io req key s = (Inr ((i, masterKey), key1), s1)"
  shows "walletKeys s1 = walletKeys s"
proof (cases "getProp (supportedcoins cfg) (b_coin req) = Str ''xlm''")
  case True
  with assms have "provisionMasterKey cfg io (b_coin req) (b_customerId req) s
      = (Inr (i, masterKey), s1)"
    by (auto simp: obtainMasterKey_def split: prod.splits sum.splits)
  from provisionMasterKey_fresh [OF this] show ?thesis by simp
next
  case False
  with assms have "getMasterXpub cfg io (b_coin req) (b_customerId req) s
      = (Inr (i, masterKey), s1)"
    by (auto simp: obtainMasterKey_def split: prod.splits sum.splits)
  from getMasterXpub_stored [OF this] show ?thesis by simp
qed

text \<open>
  C10. On success the \<open>custom\<close> object returned (and saved with the wallet key) is the
  caller's object, or an empty one, with its \<open>created\<close> property set to the time of the
  request: a \<open>created\<close> supplied by the caller is overwritten, every other property is
  kept.
\<close>

theorem custom_created_is_overwritten:
  assumes "provisionKey cfg io req s = (Inr r, s')"
  shows "\<exists>c wk. r_custom r = Some c \<and> c ''created'' = Some (CDate (now io)) \<and>
           (\<forall>k. k \<noteq> ''created'' \<longrightarrow>
              c k = (case b_custom req of None \<Rightarrow> None | Some given \<Rightarrow> given k)) \<and>
           walletKeys s' = walletKeys s @ [wk] \<and> wk_custom wk = Some c"
proof -
  from assms obtain i masterKey key1 s1 key2 s2 where
    sel: "obtainMasterKey cfg io req newWalletKey s = (Inr ((i, masterKey), key1), s1)"
    and sv: "saveWalletKey io req i masterKey key1 s1 = (key2, s2)"
    and fr: "walletKeys s' = walletKeys s2"
    and r: "r = \<lparr> r_masterKey = mk_pub masterKey, r_path = wk_path key2,
               r_userEmail = wk_userEmail key2, r_custom = wk_custom key2,
               r_masterKeySig = mk_signature masterKey, r_pub = wk_pub key2 \<rparr>"
    by (rule provisionKey_InrE)
  let ?c = "(case b_custom req of None \<Rightarrow> Map.empty | Some c \<Rightarrow> c)(''created'' \<mapsto> CDate (now io))"
  from saveWalletKey_writes [OF sv] obtain wk where
    wk: "walletKeys s2 = walletKeys s1 @ [wk]" "wk_custom wk = wk_custom key2"
      "wk_custom key2 = Some ?c"
    by blast
  have "?c ''created'' = Some (CDate (now io))"
    by simp
  moreover have "\<forall>k. k \<noteq> ''created'' \<longrightarrow>
      ?c k = (case b_custom req of None \<Rightarrow> None | Some given \<Rightarrow> given k)"
    by (simp split: option.splits)
  ultimately show ?thesis
    using wk fr r obtainMasterKey_walletKeys [OF sel]
    by (intro exI [of _ ?c] exI [of _ wk]) simp
qed

theorem custom_created_is_overwritten_witness:
  "\<not> isl (fst (provisionKey exampleConfig exampleEnv
      ((exampleRequest ''btc'')\<lparr>b_custom :=
          Some [''created'' \<mapsto> CString ''mine'', ''label'' \<mapsto> CString ''cold'']\<rparr>)
      examplePool)) \<and>
   map_option (\<lambda>c. (c ''created'', c ''label''))
     (r_custom (projr (fst (provisionKey exampleConfig exampleEnv
      ((exampleRequest ''btc'')\<lparr>b_custom :=
          Some [''created'' \<mapsto> CString ''mine'', ''label'' \<mapsto> CString ''cold'']\<rparr>)
      examplePool)))) = Some (Some (CDate 1000), Some (CString ''cold''))"
proof -
  let ?req = "(exampleRequest ''btc'')\<lparr>b_custom :=
          Some [''created'' \<mapsto> CString ''mine'', ''label'' \<mapsto> CString ''cold'']\<rparr>"
  obtain r s' where run: "provisionKey exampleConfig exampleEnv ?req examplePool = (Inr r, s')"
    by (simp add: step_defs example_defs js_defs Let_def numberToString_0)
  from custom_created_is_overwritten [OF run] obtain c where
    c: "r_custom r = Some c" "c ''created'' = Some (CDate (now exampleEnv))"
       "c ''label'' = (case b_custom ?req of None \<Rightarrow> None | Some given \<Rightarrow> given ''label'')"
    by force
  with run show ?thesis
    by (simp add: exampleEnv_def)
qed

subsection \<open>Best-effort notifications\<close>

text \<open>Up to the wallet key's save, a request does not look at the Mailchimp answers
  or at the outcome of the webhook POST.\<close>

lemma sendDatabaseLowWarning_ignores_notifications:
  "sendDatabaseLowWarning cfg (io\<lparr>postFails := b\<rparr>) = sendDatabaseLowWarning cfg io"
  "sendDatabaseLowWarning cfg (io\<lparr>createMemberResult := m, addTagResult := t\<rparr>)
     = sendDatabaseLowWarning cfg io"
  by (simp_all add: fun_eq_iff sendDatabaseLowWarning_def)

lemma provisionMasterKey_ignores_notifications:
  "provisionMasterKey cfg (io\<lparr>postFails := b\<rparr>) coin customerId s
     = provisionMasterKey cfg io coin customerId s"
  "provisionMasterKey cfg (io\<lparr>createMemberResult := m, addTagResult := t\<rparr>) coin customerId s
     = provisionMasterKey cfg io coin customerId s"
  unfolding provisionMasterKey_def sendDatabaseLowWarning_ignores_notifications
  by (rule refl)+

lemma getMasterXpub_ignores_notifications:
  "getMasterXpub cfg (io\<lparr>postFails := b\<rparr>) coin customerId s
     = getMasterXpub cfg io coin customerId s"
  "getMasterXpub cfg (io\<lparr>createMemberResult := m, addTagResult := t\<rparr>) coin customerId s
     = getMasterXpub cfg io coin customerId s"
  unfolding getMasterXpub_def provisionMasterKey_ignores_notifications
  by (rule refl)+

lemma derive_ignores_notifications:
  "deriveChildKey (io\<lparr>postFails := b\<rparr>) = deriveChildKey io"
  "deriveChildKey (io\<lparr>createMemberResult := m, addTagResult := t\<rparr>) = deriveChildKey io"
  by simp_all

lemma obtainMasterKey_ignores_notifications:
  "obtainMasterKey cfg (io\<lparr>postFails := b\<rparr>) req key s = obtainMasterKey cfg io req key s"
  "obtainMasterKey cfg (io\<lparr>createMemberResult := m, addTagResult := t\<rparr>) req key s
     = obtainMasterKey cfg io req key s"
  unfolding obtainMasterKey_def getMasterXpub_ignores_notifications
    provisionMasterKey_ignores_notifications derive_ignores_notifications
  by (rule refl)+

lemma saveWalletKey_ignores_notifications:
  "saveWalletKey (io\<lparr>postFails := b\<rparr>) req i masterKey key s
     = saveWalletKey io req i masterKey key s"
  "saveWalletKey (io\<lparr>createMemberResult := m, addTagResult := t\<rparr>) req i masterKey key s
     = saveWalletKey io req i masterKey key s"
  by (simp_all add: saveWalletKey_def)

lemma sendKeyEmail_ignores_notifications:
  "sendKeyEmail cfg (io\<lparr>postFails := b\<rparr>) req ex key s = sendKeyEmail cfg io req ex key s"
  "sendKeyEmail cfg (io\<lparr>createMemberResult := m, addTagResult := t\<rparr>) req ex key s
     = sendKeyEmail cfg io req ex key s"
  by (simp_all add: sendKeyEmail_def)

lemma mailchimp_answers_ignore_post:
  "createMemberResult (io\<lparr>postFails := b\<rparr>) = createMemberResult io"
  "addTagResult (io\<lparr>postFails := b\<rparr>) = addTagResult io"
  by simp_all

lemma syncMailchimp_ignores_post:
  "syncMailchimp cfg (io\<lparr>postFails := b\<rparr>) ex email s = syncMailchimp cfg io ex email s"
  unfolding syncMailchimp_def mailchimp_answers_ignore_post by (rule refl)

lemma webhook_ignores_mailchimp_answers:
  "postFails (io\<lparr>createMemberResult := m, addTagResult := t\<rparr>) = postFails io"
  "hmacSha256Hex (io\<lparr>createMemberResult := m, addTagResult := t\<rparr>) = hmacSha256Hex io"
  by simp_all

lemma notifyEndpoint_ignores_mailchimp:
  "notifyEndpoint cfg (io\<lparr>createMemberResult := m, addTagResult := t\<rparr>) key st s
     = notifyEndpoint cfg io key st s"
  unfolding notifyEndpoint_def webhook_ignores_mailchimp_answers by (rule refl)

lemma notifyEndpoint_post_outcome:
  "fst (notifyEndpoint cfg (io\<lparr>postFails := b\<rparr>) key st s) = fst (notifyEndpoint cfg io key st s)"
  "masterKeys (snd (notifyEndpoint cfg (io\<lparr>postFails := b\<rparr>) key st s))
     = masterKeys (snd (notifyEndpoint cfg io key st s))"
  "walletKeys (snd (notifyEndpoint cfg (io\<lparr>postFails := b\<rparr>) key st s))
     = walletKeys (snd (notifyEndpoint cfg io key st s))"
  by (simp_all add: notifyEndpoint_def emit_def Let_def split: sum.splits)

lemma notifyEndpoint_post_outcomeD:
  assumes "notifyEndpoint cfg (io\<lparr>postFails := b\<rparr>) key st s = (res, s')"
    and "notifyEndpoint cfg io key st s = (res0, s0)"
  shows "res = res0 \<and> masterKeys s' = masterKeys s0 \<and> walletKeys s' = walletKeys s0"
  using notifyEndpoint_post_outcome [where cfg = cfg and io = io and b = b and key = key
      and st = st and s = s] assms
  by simp

lemma provisionKey_post_outcome:
  "fst (provisionKey cfg (io\<lparr>postFails := b\<rparr>) req s) = fst (provisionKey cfg io req s) \<and>
   masterKeys (snd (provisionKey cfg (io\<lparr>postFails := b\<rparr>) req s))
     = masterKeys (snd (provisionKey cfg io req s)) \<and>
   walletKeys (snd (provisionKey cfg (io\<lparr>postFails := b\<rparr>) req s))
     = walletKeys (snd (provisionKey cfg io req s))"
  by (auto simp: provisionKey_def Let_def obtainMasterKey_ignores_notifications
      saveWalletKey_ignores_notifications sendKeyEmail_ignores_notifications
      syncMailchimp_ignores_post split: option.splits sum.splits prod.splits
      dest: notifyEndpoint_post_outcomeD)

text \<open>A request that has its master key and has saved its wallet key is left with the
  three notifications.\<close>

lemma provisionKey_after_save:
  assumes "truthy (b_customerId req)" and "truthy (b_coin req)"
    and "truthyVal (getProp (supportedcoins cfg) (b_coin req))" and "truthy (b_userEmail req)"
    and "requesterCheck cfg req = None"
    and "obtainMasterKey cfg io req newWalletKey s = (Inr ((i, masterKey), key1), s1)"
    and "saveWalletKey io req i masterKey key1 s1 = (key2, s2)"
  shows "provisionKey cfg io req s =
     (case sendKeyEmail cfg io req (isExistingUser (b_userEmail req) s) key2 s2 of
        (Inl e, s3) \<Rightarrow> (Inl e, s3)
      | (Inr u, s3) \<Rightarrow>
          (case syncMailchimp cfg io (isExistingUser (b_userEmail req) s) (b_userEmail req) s3 of
             (Inl e, s4) \<Rightarrow> (Inl e, s4)
           | (Inr u, s4) \<Rightarrow>
               (case (if truthy (wk_notificationURL key2)
                      then notifyEndpoint cfg io key2 ''created'' s4
                      else (Inr (), s4)) of
                  (Inl e, s5) \<Rightarrow> (Inl e, s5)
                | (Inr u, s5) \<Rightarrow>
                    (Inr \<lparr> r_masterKey = mk_pub masterKey, r_path = wk_path key2,
                           r_userEmail = wk_userEmail key2, r_custom = wk_custom key2,
                           r_masterKeySig = mk_signature masterKey, r_pub = wk_pub key2 \<rparr>,
                     s5))))"
  using assms by (simp add: provisionKey_def Let_def)

lemma syncMailchimp_answered:
  assumes "createMemberResult io = Inr m" and "addTagResult io = Inr t"
  shows "fst (syncMailchimp cfg io ex email s) = Inr () \<and>
         masterKeys (snd (syncMailchimp cfg io ex email s)) = masterKeys s \<and>
         walletKeys (snd (syncMailchimp cfg io ex email s)) = walletKeys s"
  using assms by (simp add: syncMailchimp_def emit_def Let_def)

lemma syncMailchimp_thrown:
  assumes "sendMailChimpNotKRSEMail cfg"
    and "isl (createMemberResult io) \<or> isl (addTagResult io)"
  shows "\<exists>e s'. syncMailchimp cfg io ex email s =
            (Inl (ErrorResponse 503 ''Problem calling mailchimp''), s') \<and>
          masterKeys s' = masterKeys s \<and> walletKeys s' = walletKeys s \<and>
          last (effects s') =
            ConsoleLog (''Failed to create Mailchimp lists and tags. '' @ errorText e)"
proof (cases "createMemberResult io")
  case (Inl e)
  with assms(1) show ?thesis
    by (auto simp: syncMailchimp_def mailchimpFailed_def emit_def Let_def)
next
  case (Inr m)
  with assms(2) obtain e where "addTagResult io = Inl e"
    by (cases "addTagResult io") simp_all
  with Inr assms(1) show ?thesis
    by (auto simp: syncMailchimp_def mailchimpFailed_def emit_def Let_def)
qed

lemma notifyEndpoint_result:
  "fst (notifyEndpoint cfg io key st s) =
     (case hmacSha256Hex io (provider_secret cfg) (wk_xpub key) of
        Inl e \<Rightarrow> Inl e | Inr h \<Rightarrow> Inr ())"
  "masterKeys (snd (notifyEndpoint cfg io key st s)) = masterKeys s"
  "walletKeys (snd (notifyEndpoint cfg io key st s)) = walletKeys s"
  by (simp_all add: notifyEndpoint_def emit_def Let_def split: sum.splits)

lemma provisionKey_mailchimp_status:
  "fst (provisionKey cfg (io\<lparr>createMemberResult := Inr m, addTagResult := Inr t\<rparr>) req s)
     = fst (provisionKey cfg (io\<lparr>createMemberResult := Inr m', addTagResult := Inr t'\<rparr>) req s) \<and>
   masterKeys (snd (provisionKey cfg (io\<lparr>createMemberResult := Inr m, addTagResult := Inr t\<rparr>)
      req s))
     = masterKeys (snd (provisionKey cfg
         (io\<lparr>createMemberResult := Inr m', addTagResult := Inr t'\<rparr>) req s)) \<and>
   walletKeys (snd (provisionKey cfg (io\<lparr>createMemberResult := Inr m, addTagResult := Inr t\<rparr>)
      req s))
     = walletKeys (snd (provisionKey cfg
         (io\<lparr>createMemberResult := Inr m', addTagResult := Inr t'\<rparr>) req s))"
proof -
  let ?io = "io\<lparr>createMemberResult := Inr m, addTagResult := Inr t\<rparr>"
  let ?io' = "io\<lparr>createMemberResult := Inr m', addTagResult := Inr t'\<rparr>"
  have sync: "fst (syncMailchimp cfg ?io ex email s3) = Inr ()"
      "masterKeys (snd (syncMailchimp cfg ?io ex email s3)) = masterKeys s3"
      "walletKeys (snd (syncMailchimp cfg ?io ex email s3)) = walletKeys s3"
      "fst (syncMailchimp cfg ?io' ex email s3) = Inr ()"
      "masterKeys (snd (syncMailchimp cfg ?io' ex email s3)) = masterKeys s3"
      "walletKeys (snd (syncMailchimp cfg ?io' ex email s3)) = walletKeys s3" for ex email s3
    using syncMailchimp_answered [of ?io m t] syncMailchimp_answered [of ?io' m' t']
    by simp_all
  show ?thesis
    by (simp add: provisionKey_def Let_def obtainMasterKey_ignores_notifications
      saveWalletKey_ignores_notifications sendKeyEmail_ignores_notifications
      notifyEndpoint_ignores_mailchimp case_prod_beta sync notifyEndpoint_result
      split: option.splits sum.splits)
qed

text \<open>
  C5, as the code has it. A webhook POST that fails is caught inside \<open>notifyEndpoint\<close>,
  written to the console and not thrown: the result of the request and both collections
  are the same whether the POST fails or not. A Mailchimp call that answers with a status
  other than 200 is written to the console only: result and collections do not depend on
  the answers. A Mailchimp call that throws is written to the console and thrown again as
  the 503 error \<^verbatim>\<open>Problem calling mailchimp\<close>: a request that would succeed with Mailchimp
  answering fails with that error, its wallet key already saved.
\<close>

theorem best_effort_failures:
  "(fst (provisionKey cfg (io\<lparr>postFails := True\<rparr>) req s)
      = fst (provisionKey cfg (io\<lparr>postFails := False\<rparr>) req s) \<and>
    masterKeys (snd (provisionKey cfg (io\<lparr>postFails := True\<rparr>) req s))
      = masterKeys (snd (provisionKey cfg (io\<lparr>postFails := False\<rparr>) req s)) \<and>
    walletKeys (snd (provisionKey cfg (io\<lparr>postFails := True\<rparr>) req s))
      = walletKeys (snd (provisionKey cfg (io\<lparr>postFails := False\<rparr>) req s))) \<and>
   (\<forall>h. hmacSha256Hex io (provider_secret cfg) (wk_xpub key) = Inr h \<longrightarrow>
      notifyEndpoint cfg (io\<lparr>postFails := True\<rparr>) key st s0 =
        (Inr (), s0\<lparr>effects := effects s0 @
           [HttpPost (wk_notificationURL key)
              \<lparr> p_userEmail = wk_userEmail key, p_provider = provider_id cfg, p_state = st,
                p_xpub = wk_xpub key, p_hmac = h \<rparr>,
            ConsoleLog ''error connecting to webhook'']\<rparr>)) \<and>
   (fst (provisionKey cfg (io\<lparr>createMemberResult := Inr m, addTagResult := Inr t\<rparr>) req s)
      = fst (provisionKey cfg (io\<lparr>createMemberResult := Inr m', addTagResult := Inr t'\<rparr>) req s) \<and>
    masterKeys (snd (provisionKey cfg (io\<lparr>createMemberResult := Inr m, addTagResult := Inr t\<rparr>)
        req s))
      = masterKeys (snd (provisionKey cfg
          (io\<lparr>createMemberResult := Inr m', addTagResult := Inr t'\<rparr>) req s)) \<and>
    walletKeys (snd (provisionKey cfg (io\<lparr>createMemberResult := Inr m, addTagResult := Inr t\<rparr>)
        req s))
      = walletKeys (snd (provisionKey cfg
          (io\<lparr>createMemberResult := Inr m', addTagResult := Inr t'\<rparr>) req s))) \<and>
   (sendMailChimpNotKRSEMail cfg \<and> (isl (createMemberResult io) \<or> isl (addTagResult io)) \<and>
    \<not> isl (fst (provisionKey cfg (io\<lparr>createMemberResult := Inr m, addTagResult := Inr t\<rparr>)
              req s)) \<longrightarrow>
      fst (provisionKey cfg io req s) = Inl (ErrorResponse 503 ''Problem calling mailchimp'') \<and>
      walletKeys (snd (provisionKey cfg io req s))
        = walletKeys (snd (provisionKey cfg
            (io\<lparr>createMemberResult := Inr m, addTagResult := Inr t\<rparr>) req s)) \<and>
      (\<exists>e. last (effects (snd (provisionKey cfg io req s))) =
            ConsoleLog (''Failed to create Mailchimp lists and tags. '' @ errorText e)))"
proof -
  let ?ok = "io\<lparr>createMemberResult := Inr m, addTagResult := Inr t\<rparr>"
  have post: "fst (provisionKey cfg (io\<lparr>postFails := True\<rparr>) req s)
      = fst (provisionKey cfg (io\<lparr>postFails := False\<rparr>) req s) \<and>
    masterKeys (snd (provisionKey cfg (io\<lparr>postFails := True\<rparr>) req s))
      = masterKeys (snd (provisionKey cfg (io\<lparr>postFails := False\<rparr>) req s)) \<and>
    walletKeys (snd (provisionKey cfg (io\<lparr>postFails := True\<rparr>) req s))
      = walletKeys (snd (provisionKey cfg (io\<lparr>postFails := False\<rparr>) req s))"
    using provisionKey_post_outcome [where io = "io\<lparr>postFails := False\<rparr>" and b = True
        and cfg = cfg and req = req and s = s]
    by simp
  have logged: "notifyEndpoint cfg (io\<lparr>postFails := True\<rparr>) key st s0 =
        (Inr (), s0\<lparr>effects := effects s0 @
           [HttpPost (wk_notificationURL key)
              \<lparr> p_userEmail = wk_userEmail key, p_provider = provider_id cfg, p_state = st,
                p_xpub = wk_xpub key, p_hmac = h \<rparr>,
            ConsoleLog ''error connecting to webhook'']\<rparr>)"
    if "hmacSha256Hex io (provider_secret cfg) (wk_xpub key) = Inr h" for h
    using that by (simp add: notifyEndpoint_def emit_def Let_def)
  have thrown: "fst (provisionKey cfg io req s)
        = Inl (ErrorResponse 503 ''Problem calling mailchimp'') \<and>
      walletKeys (snd (provisionKey cfg io req s)) = walletKeys (snd (provisionKey cfg ?ok req s)) \<and>
      (\<exists>e. last (effects (snd (provisionKey cfg io req s))) =
            ConsoleLog (''Failed to create Mailchimp lists and tags. '' @ errorText e))"
    if on: "sendMailChimpNotKRSEMail cfg"
      and throws: "isl (createMemberResult io) \<or> isl (addTagResult io)"
      and good: "\<not> isl (fst (provisionKey cfg ?ok req s))"
  proof -
    from good obtain r s' where run: "provisionKey cfg ?ok req s = (Inr r, s')"
      by (cases "provisionKey cfg ?ok req s"; cases "fst (provisionKey cfg ?ok req s)") auto
    from run obtain i masterKey key1 s1 key2 s2 where
      valid: "truthy (b_customerId req)" "truthy (b_coin req)"
        "truthyVal (getProp (supportedcoins cfg) (b_coin req))" "truthy (b_userEmail req)"
        "requesterCheck cfg req = None"
      and sel: "obtainMasterKey cfg ?ok req newWalletKey s = (Inr ((i, masterKey), key1), s1)"
      and sv: "saveWalletKey ?ok req i masterKey key1 s1 = (key2, s2)"
      and wks: "walletKeys s' = walletKeys s2"
      by (rule provisionKey_InrE)
    from sel have sel': "obtainMasterKey cfg io req newWalletKey s
        = (Inr ((i, masterKey), key1), s1)"
      by (simp add: obtainMasterKey_ignores_notifications)
    from sv have sv': "saveWalletKey io req i masterKey key1 s1 = (key2, s2)"
      by (simp add: saveWalletKey_ignores_notifications)
    from on have mail: "sendKeyEmail cfg io req (isExistingUser (b_userEmail req) s) key2 s2
        = (Inr (), s2)"
      by (simp add: sendKeyEmail_def)
    from syncMailchimp_thrown [OF on throws] obtain e s4 where
      sync: "syncMailchimp cfg io (isExistingUser (b_userEmail req) s) (b_userEmail req) s2
          = (Inl (ErrorResponse 503 ''Problem calling mailchimp''), s4)"
        "walletKeys s4 = walletKeys s2"
        "last (effects s4)
          = ConsoleLog (''Failed to create Mailchimp lists and tags. '' @ errorText e)"
      by blast
    from provisionKey_after_save [OF valid sel' sv'] mail sync(1)
    have "provisionKey cfg io req s
        = (Inl (ErrorResponse 503 ''Problem calling mailchimp''), s4)"
      by simp
    with sync(2,3) wks run show ?thesis by auto
  qed
  from post logged provisionKey_mailchimp_status [where cfg = cfg and io = io and m = m
      and t = t and m' = m' and t' = t' and req = req and s = s] thrown
  show ?thesis by blast
qed

theorem best_effort_failures_witness:
  "sendMailChimpNotKRSEMail mailchimpConfig \<and> isl (createMemberResult mailchimpDown) \<and>
   \<not> isl (fst (provisionKey mailchimpConfig
      (mailchimpDown\<lparr>createMemberResult := Inr \<lparr>mc_status = 200, mc_Msg = ''ok''\<rparr>,
         addTagResult := Inr \<lparr>mc_status = 404, mc_Msg = ''no such tag''\<rparr>\<rparr>)
      (exampleRequest ''btc'') examplePool)) \<and>
   fst (provisionKey mailchimpConfig mailchimpDown (exampleRequest ''btc'') examplePool)
     = Inl (ErrorResponse 503 ''Problem calling mailchimp'') \<and>
   hmacSha256Hex exampleEnv (provider_secret exampleConfig) (wk_xpub notifiedKey)
     = Inr ''hmac:secret:xpubA/0'' \<and>
   notifyEndpoint exampleConfig (exampleEnv\<lparr>postFails := True\<rparr>) notifiedKey ''created''
       examplePool =
     (Inr (), examplePool\<lparr>effects :=
        [HttpPost (Some ''https://hook'')
           \<lparr> p_userEmail = Some ''u@x'', p_provider = ''krs'', p_state = ''created'',
             p_xpub = Some ''xpubA/0'', p_hmac = ''hmac:secret:xpubA/0'' \<rparr>,
         ConsoleLog ''error connecting to webhook'']\<rparr>)"
proof -
  let ?m = "\<lparr>mc_status = 200, mc_Msg = ''ok''\<rparr>"
  let ?t = "\<lparr>mc_status = 404, mc_Msg = ''no such tag''\<rparr>"
  have on: "sendMailChimpNotKRSEMail mailchimpConfig" "isl (createMemberResult mailchimpDown)"
    by (simp_all add: example_defs)
  have good: "\<not> isl (fst (provisionKey mailchimpConfig
      (mailchimpDown\<lparr>createMemberResult := Inr ?m, addTagResult := Inr ?t\<rparr>)
      (exampleRequest ''btc'') examplePool))"
    by (simp add: step_defs example_defs js_defs Let_def numberToString_0)
  have mac: "hmacSha256Hex exampleEnv (provider_secret exampleConfig) (wk_xpub notifiedKey)
     = Inr ''hmac:secret:xpubA/0''"
    by (simp add: example_defs)
  have key: "wk_notificationURL notifiedKey = Some ''https://hook''"
    "wk_userEmail notifiedKey = Some ''u@x''" "wk_xpub notifiedKey = Some ''xpubA/0''"
    "provider_id exampleConfig = ''krs''" "effects examplePool = []"
    by (simp_all add: example_defs newWalletKey_def)
  note t = best_effort_failures [where cfg = mailchimpConfig and io = mailchimpDown
      and req = "exampleRequest ''btc''" and s = examplePool and m = ?m and t = ?t]
  from t on good
  have a: "fst (provisionKey mailchimpConfig mailchimpDown (exampleRequest ''btc'') examplePool)
     = Inl (ErrorResponse 503 ''Problem calling mailchimp'')"
    by blast
  note u = best_effort_failures [where cfg = exampleConfig and io = exampleEnv
      and key = notifiedKey and st = "''created''" and ?s0.0 = examplePool]
  from u mac
  have "notifyEndpoint exampleConfig (exampleEnv\<lparr>postFails := True\<rparr>) notifiedKey ''created''
       examplePool =
     (Inr (), examplePool\<lparr>effects := effects examplePool @
        [HttpPost (wk_notificationURL notifiedKey)
           \<lparr> p_userEmail = wk_userEmail notifiedKey, p_provider = provider_id exampleConfig,
             p_state = ''created'', p_xpub = wk_xpub notifiedKey,
             p_hmac = ''hmac:secret:xpubA/0'' \<rparr>,
         ConsoleLog ''error connecting to webhook'']\<rparr>)"
    by blast
  with a on good mac key show ?thesis by simp
qed

text \<open>
  The claim as stated fails for Mailchimp: with Mailchimp timing out the request ends
  with a 503 error, although the master key is assigned and the wallet key saved.
\<close>

theorem mailchimp_failure_counterexample:
  "fst (provisionKey mailchimpConfig mailchimpDown (exampleRequest ''btc'') examplePool)
     = Inl (ErrorResponse 503 ''Problem calling mailchimp'') \<and>
   map wk_pub (walletKeys (snd (provisionKey mailchimpConfig mailchimpDown
      (exampleRequest ''btc'') examplePool))) = [Some ''xpubA/0''] \<and>
   effects (snd (provisionKey mailchimpConfig mailchimpDown (exampleRequest ''btc'')
      examplePool)) ! 4 = MailchimpCreateMember (Some ''u@x'') \<and>
   effects (snd (provisionKey mailchimpConfig mailchimpDown (exampleRequest ''btc'')
      examplePool)) ! 5 = ConsoleLog ''Failed to create Mailchimp lists and tags. timeout''"
  by (simp add: step_defs example_defs js_defs Let_def numberToString_0)

subsection \<open>The requester check\<close>

text \<open>
  With requester authentication required, a request that sends no \<open>requesterSecret\<close>, or
  that names a client whose configured secret is not the one sent, is rejected before
  anything is written: with a 401 error when its other fields are valid, with the 400
  error of the validation otherwise.
\<close>

theorem requester_check_rejects:
  assumes "requesterAuth cfg = Some ra" and "required ra"
    and "b_requesterSecret req = None \<or>
         (\<exists>i. b_requesterId req = Some i \<and> clients ra i \<noteq> b_requesterSecret req)"
  shows "\<exists>code msg. provisionKey cfg io req s = (Inl (ErrorResponse code msg), s) \<and>
           (code = 400 \<or> code = 401) \<and>
           (truthy (b_customerId req) \<and> truthy (b_coin req) \<and> truthy (b_userEmail req) \<and>
            truthyVal (getProp (supportedcoins cfg) (b_coin req)) \<longrightarrow> code = 401)"
proof -
  have "\<exists>msg. requesterCheck cfg req = Some (ErrorResponse 401 msg)"
    using assms
    by (auto simp: requesterCheck_def getProp_def toStr_def truthy_def truthyVal_def jsOf_def
        split: option.splits)
  then obtain msg where rc: "requesterCheck cfg req = Some (ErrorResponse 401 msg)" ..
  show ?thesis
  proof (cases "truthy (b_customerId req) \<and> truthy (b_coin req) \<and> truthy (b_userEmail req) \<and>
            truthyVal (getProp (supportedcoins cfg) (b_coin req))")
    case True
    with rc have "provisionKey cfg io req s = (Inl (ErrorResponse 401 msg), s)"
      by (simp add: provisionKey_def Let_def)
    with True show ?thesis by blast
  next
    case False
    then have "\<not> truthy (b_customerId req) \<or> \<not> truthy (b_coin req) \<or>
        \<not> truthy (b_userEmail req) \<or> \<not> truthyVal (getProp (supportedcoins cfg) (b_coin req))"
      by blast
    then have "\<exists>m. provisionKey cfg io req s = (Inl (ErrorResponse 400 m), s)"
      by (auto simp: provisionKey_def Let_def)
    with False show ?thesis by blast
  qed
qed

theorem requester_check_rejects_witness:
  "requesterAuth (authConfig [''bitgo'' \<mapsto> ''s3cret'']) =
     Some \<lparr>required = True, clients = [''bitgo'' \<mapsto> ''s3cret'']\<rparr> \<and>
   provisionKey (authConfig [''bitgo'' \<mapsto> ''s3cret'']) exampleEnv
      ((exampleRequest ''btc'')\<lparr>b_requesterId := Some ''bitgo''\<rparr>) examplePool =
     (Inl (ErrorResponse 401 ''invalid requesterSecret''), examplePool) \<and>
   provisionKey (authConfig [''bitgo'' \<mapsto> ''s3cret'']) exampleEnv
      ((exampleRequest ''btc'')\<lparr>b_requesterId := Some ''bitgo'',
         b_requesterSecret := Some ''guess''\<rparr>) examplePool =
     (Inl (ErrorResponse 401 ''invalid requesterSecret''), examplePool)"
proof -
  let ?cfg = "authConfig [''bitgo'' \<mapsto> ''s3cret'']"
  let ?ra = "\<lparr>required = True, clients = [''bitgo'' \<mapsto> ''s3cret'']\<rparr>"
  let ?r1 = "(exampleRequest ''btc'')\<lparr>b_requesterId := Some ''bitgo''\<rparr>"
  let ?r2 = "(exampleRequest ''btc'')\<lparr>b_requesterId := Some ''bitgo'',
         b_requesterSecret := Some ''guess''\<rparr>"
  have ra: "requesterAuth ?cfg = Some ?ra" "required ?ra"
    by (simp_all add: example_defs)
  have h1: "b_requesterSecret ?r1 = None \<or>
      (\<exists>i. b_requesterId ?r1 = Some i \<and> clients ?ra i \<noteq> b_requesterSecret ?r1)"
    by (simp add: example_defs)
  have h2: "b_requesterSecret ?r2 = None \<or>
      (\<exists>i. b_requesterId ?r2 = Some i \<and> clients ?ra i \<noteq> b_requesterSecret ?r2)"
    by (simp add: example_defs)
  have e1: "fst (provisionKey ?cfg exampleEnv ?r1 examplePool)
      = Inl (ErrorResponse 401 ''invalid requesterSecret'')"
    by (simp add: provisionKey_def requesterCheck_def example_defs js_defs Let_def)
  have e2: "fst (provisionKey ?cfg exampleEnv ?r2 examplePool)
      = Inl (ErrorResponse 401 ''invalid requesterSecret'')"
    by (simp add: provisionKey_def requesterCheck_def example_defs js_defs Let_def)
  from requester_check_rejects [OF ra h1, of exampleEnv examplePool] e1
  have a: "provisionKey ?cfg exampleEnv ?r1 examplePool =
     (Inl (ErrorResponse 401 ''invalid requesterSecret''), examplePool)"
    by auto
  from requester_check_rejects [OF ra h2, of exampleEnv examplePool] e2
  have b: "provisionKey ?cfg exampleEnv ?r2 examplePool =
     (Inl (ErrorResponse 401 ''invalid requesterSecret''), examplePool)"
    by auto
  from a b ra show ?thesis by simp
qed

text \<open>
  C8 fails for a request that sends a \<open>requesterSecret\<close> and no \<open>requesterId\<close>. The first
  test throws only when both are missing, and the table is then read at the key
  \<^verbatim>\<open>undefined\<close>: where a client of that name is configured, its secret passes the check,
  a master key is claimed and a wallet key is saved.
\<close>

theorem requester_check_passes_without_requesterId:
  "b_requesterId ((exampleRequest ''btc'')\<lparr>b_requesterSecret := Some ''s3cret''\<rparr>) = None \<and>
   requesterCheck (authConfig [''undefined'' \<mapsto> ''s3cret''])
      ((exampleRequest ''btc'')\<lparr>b_requesterSecret := Some ''s3cret''\<rparr>) = None \<and>
   \<not> isl (fst (provisionKey (authConfig [''undefined'' \<mapsto> ''s3cret'']) exampleEnv
      ((exampleRequest ''btc'')\<lparr>b_requesterSecret := Some ''s3cret''\<rparr>) examplePool)) \<and>
   map mk_customerId (masterKeys (snd (provisionKey (authConfig [''undefined'' \<mapsto> ''s3cret''])
      exampleEnv ((exampleRequest ''btc'')\<lparr>b_requesterSecret := Some ''s3cret''\<rparr>) examplePool)))
     = [None, Some ''c1''] \<and>
   map wk_pub (walletKeys (snd (provisionKey (authConfig [''undefined'' \<mapsto> ''s3cret''])
      exampleEnv ((exampleRequest ''btc'')\<lparr>b_requesterSecret := Some ''s3cret''\<rparr>) examplePool)))
     = [Some ''xpubA/0'']"
  by (simp add: step_defs example_defs js_defs Let_def numberToString_0)

subsection \<open>The webhook payload\<close>

text \<open>What each step adds to the record of effects; only \<open>notifyEndpoint\<close> posts.\<close>

lemma provisionMasterKey_effects:
  assumes "provisionMasterKey cfg io coin customerId s = (res, s')"
  shows "\<exists>es. effects s' = effects s @ es \<and> (\<forall>url p. HttpPost url p \<notin> set es)"
proof (cases "findIndex (unassigned (getProp (supportedcoins cfg) coin)) (masterKeys s)")
  case None
  with assms show ?thesis by (simp add: provisionMasterKey_exhausted)
next
  case (Some i)
  from assms have "s' = snd (provisionMasterKey cfg io coin customerId s)" by simp
  then show ?thesis
    by (simp add: provisionMasterKey_claimed [OF Some] Let_def)
qed

lemma obtainMasterKey_effects:
  assumes "obtainMasterKey cfg io req key s = (res, s')"
  shows "\<exists>es. effects s' = effects s @ es \<and> (\<forall>url p. HttpPost url p \<notin> set es)"
proof -
  have get: "\<exists>es. effects s1 = effects s @ es \<and> (\<forall>url p. HttpPost url p \<notin> set es)"
    if "getMasterXpub cfg io (b_coin req) (b_customerId req) s = (r1, s1)" for r1 s1
    using that provisionMasterKey_effects [of cfg io "b_coin req" "b_customerId req" s r1 s1]
    by (auto simp: getMasterXpub_def split: if_splits option.splits)
  from assms show ?thesis
    using get provisionMasterKey_effects [of cfg io "b_coin req" "b_customerId req" s]
    by (auto simp: obtainMasterKey_def split: if_splits prod.splits sum.splits)
qed

lemma obtainMasterKey_xpub:
  assumes "obtainMasterKey cfg io req key s = (Inr ((i, masterKey), key1), s1)"
  shows "wk_xpub key1 = wk_xpub key"
  using assms by (auto simp: obtainMasterKey_def split: if_splits prod.splits sum.splits)

lemma sendKeyEmail_effects:
  assumes "sendKeyEmail cfg io req ex key s = (res, s')"
  shows "\<exists>es. effects s' = effects s @ es \<and> (\<forall>url p. HttpPost url p \<notin> set es)"
  using assms by (auto simp: sendKeyEmail_def emit_def Let_def split: if_splits)

lemma syncMailchimp_effects:
  assumes "syncMailchimp cfg io ex email s = (res, s')"
  shows "\<exists>es. effects s' = effects s @ es \<and> (\<forall>url p. HttpPost url p \<notin> set es)"
  using assms
  by (auto simp: syncMailchimp_def mailchimpFailed_def emit_def Let_def
      split: if_splits sum.splits)

lemma notifyEndpoint_effects:
  assumes "notifyEndpoint cfg io key st s = (res, s')"
  shows "\<exists>es. effects s' = effects s @ es \<and>
           (\<forall>url p. HttpPost url p \<in> set es \<longrightarrow> p_xpub p = wk_xpub key)"
  using assms
  by (auto simp: notifyEndpoint_def emit_def Let_def split: if_splits sum.splits)

text \<open>
  Whatever the request, the configuration and the collaborators, every webhook POST that
  \<open>provisionKey\<close> makes carries an undefined \<open>xpub\<close>: \<open>notifyEndpoint\<close> reads
  \<^verbatim>\<open>key.xpub\<close>, and the wallet key's public key is written to \<^verbatim>\<open>key.pub\<close> only.
\<close>

theorem webhook_posts_undefined_xpub:
  assumes "provisionKey cfg io req s = (res, s')"
  shows "\<exists>es. effects s' = effects s @ es \<and>
           (\<forall>url p. HttpPost url p \<in> set es \<longrightarrow> p_xpub p = None)"
proof -
  define quiet where "quiet a b \<longleftrightarrow>
    (\<exists>es. effects b = effects a @ es \<and> (\<forall>url p. HttpPost url p \<in> set es \<longrightarrow> p_xpub p = None))"
    for a b :: krs
  have refl: "quiet a a" for a
    by (simp add: quiet_def)
  have trans: "quiet a c" if "quiet a b" "quiet b c" for a b c
  proof -
    from that obtain es fs where "effects b = effects a @ es" "effects c = effects b @ fs"
      "\<forall>url p. HttpPost url p \<in> set es \<longrightarrow> p_xpub p = None"
      "\<forall>url p. HttpPost url p \<in> set fs \<longrightarrow> p_xpub p = None"
      unfolding quiet_def by blast
    then have "effects c = effects a @ (es @ fs) \<and>
        (\<forall>url p. HttpPost url p \<in> set (es @ fs) \<longrightarrow> p_xpub p = None)"
      by auto
    then show ?thesis unfolding quiet_def by blast
  qed
  have silent: "quiet a b"
    if "\<exists>es. effects b = effects a @ es \<and> (\<forall>url p. HttpPost url p \<notin> set es)" for a b
    using that unfolding quiet_def by blast
  show ?thesis
  proof (cases "truthy (b_customerId req) \<and> truthy (b_coin req) \<and>
      truthyVal (getProp (supportedcoins cfg) (b_coin req)) \<and> truthy (b_userEmail req) \<and>
      requesterCheck cfg req = None")
    case False
    with assms have "s' = s"
      by (auto simp: provisionKey_def Let_def split: if_splits option.splits)
    with refl show ?thesis by (simp add: quiet_def)
  next
    case True
    obtain sel s1 where sel: "obtainMasterKey cfg io req newWalletKey s = (sel, s1)"
      by (cases "obtainMasterKey cfg io req newWalletKey s")
    from obtainMasterKey_effects [OF sel] have q1: "quiet s s1"
      by (rule silent)
    show ?thesis
    proof (cases sel)
      case (Inl e)
      with assms True sel have "s' = s1"
        by (simp add: provisionKey_def Let_def)
      with q1 show ?thesis by (simp add: quiet_def)
    next
      case (Inr found)
      obtain i masterKey key1 where found: "found = ((i, masterKey), key1)"
        by (cases found) auto
      obtain key2 s2 where sv: "saveWalletKey io req i masterKey key1 s1 = (key2, s2)"
        by (cases "saveWalletKey io req i masterKey key1 s1")
      from sel Inr found have sel': "obtainMasterKey cfg io req newWalletKey s
          = (Inr ((i, masterKey), key1), s1)"
        by simp
      from saveWalletKey_writes [OF sv] obtainMasterKey_xpub [OF sel']
      have undefined: "wk_xpub key2 = None"
        and "\<exists>es. effects s2 = effects s1 @ es \<and> (\<forall>url p. HttpPost url p \<notin> set es)"
        by (auto simp: newWalletKey_def)
      then have q2: "quiet s1 s2" by (intro silent)
      obtain m s3 where
        m: "sendKeyEmail cfg io req (isExistingUser (b_userEmail req) s) key2 s2 = (m, s3)"
        by (cases "sendKeyEmail cfg io req (isExistingUser (b_userEmail req) s) key2 s2")
      from sendKeyEmail_effects [OF m] have q3: "quiet s2 s3" by (rule silent)
      obtain c s4 where
        c: "syncMailchimp cfg io (isExistingUser (b_userEmail req) s) (b_userEmail req) s3
              = (c, s4)"
        by (cases "syncMailchimp cfg io (isExistingUser (b_userEmail req) s)
              (b_userEmail req) s3")
      from syncMailchimp_effects [OF c] have q4: "quiet s3 s4" by (rule silent)
      obtain n s5 where n: "notifyEndpoint cfg io key2 ''created'' s4 = (n, s5)"
        by (cases "notifyEndpoint cfg io key2 ''created'' s4")
      from notifyEndpoint_effects [OF n] undefined have q5: "quiet s4 s5"
        by (simp add: quiet_def)
      from True sel' sv have "provisionKey cfg io req s =
         (case sendKeyEmail cfg io req (isExistingUser (b_userEmail req) s) key2 s2 of
            (Inl e, s3) \<Rightarrow> (Inl e, s3)
          | (Inr u, s3) \<Rightarrow>
              (case syncMailchimp cfg io (isExistingUser (b_userEmail req) s)
                      (b_userEmail req) s3 of
                 (Inl e, s4) \<Rightarrow> (Inl e, s4)
               | (Inr u, s4) \<Rightarrow>
                   (case (if truthy (wk_notificationURL key2)
                          then notifyEndpoint cfg io key2 ''created'' s4
                          else (Inr (), s4)) of
                      (Inl e, s5) \<Rightarrow> (Inl e, s5)
                    | (Inr u, s5) \<Rightarrow>
                        (Inr \<lparr> r_masterKey = mk_pub masterKey, r_path = wk_path key2,
                               r_userEmail = wk_userEmail key2, r_custom = wk_custom key2,
                               r_masterKeySig = mk_signature masterKey, r_pub = wk_pub key2 \<rparr>,
                         s5))))"
        by (intro provisionKey_after_save) simp_all
      with assms m c n have "s' = s3 \<or> s' = s4 \<or> s' = s5"
        by (auto split: sum.splits if_splits)
      moreover have "quiet s s3" "quiet s s4" "quiet s s5"
        using q1 q2 q3 q4 q5 trans by blast+
      ultimately show ?thesis
        unfolding quiet_def by blast
    qed
  qed
qed

theorem webhook_posts_undefined_xpub_witness:
  "\<not> isl (fst (provisionKey exampleConfig lenientEnv hookRequest examplePool)) \<and>
   r_pub (projr (fst (provisionKey exampleConfig lenientEnv hookRequest examplePool)))
     = Some ''xpubA/0'' \<and>
   last (effects (snd (provisionKey exampleConfig lenientEnv hookRequest examplePool))) =
     HttpPost (Some ''https://hook'')
       \<lparr> p_userEmail = Some ''u@x'', p_provider = ''krs'', p_state = ''created'',
         p_xpub = None, p_hmac = ''hmac:secret:undefined'' \<rparr>"
proof -
  obtain res s' where run: "provisionKey exampleConfig lenientEnv hookRequest examplePool
      = (res, s')"
    by (cases "provisionKey exampleConfig lenientEnv hookRequest examplePool")
  have ev: "\<not> isl (fst (provisionKey exampleConfig lenientEnv hookRequest examplePool))"
    "r_pub (projr (fst (provisionKey exampleConfig lenientEnv hookRequest examplePool)))
       = Some ''xpubA/0''"
    "\<exists>x. last (effects (snd (provisionKey exampleConfig lenientEnv hookRequest examplePool))) =
     HttpPost (Some ''https://hook'')
       \<lparr> p_userEmail = Some ''u@x'', p_provider = ''krs'', p_state = ''created'',
         p_xpub = x, p_hmac = ''hmac:secret:undefined'' \<rparr>"
    "effects examplePool = []"
    "effects (snd (provisionKey exampleConfig lenientEnv hookRequest examplePool)) \<noteq> []"
    by (simp_all add: step_defs example_defs js_defs Let_def numberToString_0)
  from ev(3) obtain x where x: "last (effects s') = HttpPost (Some ''https://hook'')
       \<lparr> p_userEmail = Some ''u@x'', p_provider = ''krs'', p_state = ''created'',
         p_xpub = x, p_hmac = ''hmac:secret:undefined'' \<rparr>"
    using run by auto
  from ev(5) run have "last (effects s') \<in> set (effects s')"
    by simp
  with webhook_posts_undefined_xpub [OF run] ev(4) x have "x = None"
    by force
  with x ev run show ?thesis by simp
qed

text \<open>
  C9 fails for every request that names a \<open>notificationURL\<close>. The wallet key issued is
  \<open>xpubA/0\<close>; with a digest that throws on undefined data the request is rejected by that
  throw, after the wallet key is saved and before any POST; with one that accepts it, the
  payload carries no \<open>xpub\<close> and the digest of \<^verbatim>\<open>undefined\<close>.
\<close>

theorem webhook_payload_lacks_issued_key:
  "map wk_pub (walletKeys (snd (provisionKey exampleConfig exampleEnv hookRequest examplePool)))
     = [Some ''xpubA/0''] \<and>
   fst (provisionKey exampleConfig exampleEnv hookRequest examplePool)
     = Inl (Rejected ''TypeError'') \<and>
   last (effects (snd (provisionKey exampleConfig exampleEnv hookRequest examplePool))) =
     MailQueued (Some ''u@x'') ''BitGo Wallet: ACTION REQUIRED'' ''newkeytemplate''
       (KeyParams (Some ''xpubA/0'') ''KRS'' ''https://krs'' ''admin@krs'' (Some ''u@x'')) \<and>
   r_pub (projr (fst (provisionKey exampleConfig lenientEnv hookRequest examplePool)))
     = Some ''xpubA/0'' \<and>
   last (effects (snd (provisionKey exampleConfig lenientEnv hookRequest examplePool))) =
     HttpPost (Some ''https://hook'')
       \<lparr> p_userEmail = Some ''u@x'', p_provider = ''krs'', p_state = ''created'',
         p_xpub = None, p_hmac = ''hmac:secret:undefined'' \<rparr>"
  by (simp add: step_defs example_defs js_defs Let_def numberToString_0)

end
